theory Spec2Isabelle
  imports Complex_Main "HOL-Library.Word"
begin

section \<open>JavaScript values\<close>

text \<open>
  A JavaScript string is a sequence of 16-bit code units. ASCII literals of the server are
  written through \<open>ascii\<close>; the Arabic literals are written as their code units.
\<close>

type_synonym jsstring = "16 word list"

definition ascii :: "string \<Rightarrow> jsstring" where
  "ascii s = map (\<lambda>c. of_nat (of_char c)) s"

text \<open>
  A number is an IEEE double. Every finite double is a rational, and the two zeros are equal
  under \<open>===\<close> and both falsy, so they are one value here.
\<close>

datatype jsnum = NaN | PosInfinity | NegInfinity | Finite rat

text \<open>
  The values a parsed request body is made of: what \<open>express.json\<close> and
  \<open>express.urlencoded\<close> produce, and \<open>undefined\<close> for what is absent. An object is the
  list of its own properties.
\<close>

datatype jsval =
    JUndefined
  | JNull
  | JBool bool
  | JNum jsnum
  | JStr jsstring
  | JArr "jsval list"
  | JObj "(jsstring \<times> jsval) list"

text \<open>ToBoolean, as used by \<open>&&\<close>, \<open>||\<close> and \<open>if\<close>.\<close>

fun truthy :: "jsval \<Rightarrow> bool" where
  "truthy JUndefined = False"
| "truthy JNull = False"
| "truthy (JBool b) = b"
| "truthy (JNum n) = (n \<noteq> NaN \<and> n \<noteq> Finite 0)"
| "truthy (JStr s) = (s \<noteq> [])"
| "truthy (JArr xs) = True"
| "truthy (JObj kvs) = True"

text \<open>The \<open>typeof\<close> operator.\<close>

fun typeof :: "jsval \<Rightarrow> string" where
  "typeof JUndefined = ''undefined''"
| "typeof JNull = ''object''"
| "typeof (JBool b) = ''boolean''"
| "typeof (JNum n) = ''number''"
| "typeof (JStr s) = ''string''"
| "typeof (JArr xs) = ''object''"
| "typeof (JObj kvs) = ''object''"

text \<open>\<open>a || b\<close>\<close>

definition js_or :: "jsval \<Rightarrow> jsval \<Rightarrow> jsval" where
  "js_or a b = (if truthy a then a else b)"

text \<open>
  The code units that \<open>String.prototype.trim\<close> removes: the WhiteSpace and LineTerminator
  productions of ECMAScript.
\<close>

definition is_white_space :: "16 word \<Rightarrow> bool" where
  "is_white_space c \<longleftrightarrow>
     c = 0x9 \<or> c = 0xA \<or> c = 0xB \<or> c = 0xC \<or> c = 0xD \<or> c = 0x20 \<or> c = 0xA0 \<or>
     c = 0x1680 \<or> (0x2000 \<le> c \<and> c \<le> 0x200A) \<or> c = 0x2028 \<or> c = 0x2029 \<or>
     c = 0x202F \<or> c = 0x205F \<or> c = 0x3000 \<or> c = 0xFEFF"

definition trim :: "jsstring \<Rightarrow> jsstring" where
  "trim s = rev (dropWhile is_white_space (rev (dropWhile is_white_space s)))"

text \<open>
  Reading a property. On \<open>undefined\<close> and \<open>null\<close> the read throws a TypeError, with
  the engine's message \<open>Cannot read properties of undefined (reading 'company')\<close>. The
  names the server reads (\<open>company\<close>, \<open>firstName\<close>, ...) are inherited from no prototype, so
  on an array or a primitive the read gives \<open>undefined\<close>, and on an object the own property
  or \<open>undefined\<close>.
\<close>

datatype js_error =
    TypeError jsstring
  | ThrownError jsstring

fun property :: "jsval \<Rightarrow> jsstring \<Rightarrow> jsval" where
  "property (JObj kvs) k = (case map_of kvs k of None \<Rightarrow> JUndefined | Some v \<Rightarrow> v)"
| "property v k = JUndefined"

definition nullish :: "jsval \<Rightarrow> bool" where
  "nullish v \<longleftrightarrow> v = JUndefined \<or> v = JNull"

definition get_prop :: "jsval \<Rightarrow> jsstring \<Rightarrow> js_error + jsval" where
  "get_prop v k =
     (if nullish v
      then Inl (TypeError
             (ascii ''Cannot read properties of '' @
              (if v = JNull then ascii ''null'' else ascii ''undefined'') @
              ascii '' (reading '' @ [0x27] @ k @ [0x27] @ ascii '')''))
      else Inr (property v k))"

section \<open>The validator\<close>

definition MSG_FIRST_NAME :: jsstring where
  "MSG_FIRST_NAME =
     [0x627, 0x644, 0x627, 0x633, 0x645, 0x20, 0x627, 0x644, 0x623, 0x648,
      0x644, 0x20, 0x645, 0x637, 0x644, 0x648, 0x628, 0x2E]"

definition MSG_LAST_NAME :: jsstring where
  "MSG_LAST_NAME =
     [0x627, 0x644, 0x627, 0x633, 0x645, 0x20, 0x627, 0x644, 0x623, 0x62E,
      0x64A, 0x631, 0x20, 0x645, 0x637, 0x644, 0x648, 0x628, 0x2E]"

definition MSG_EMAIL :: jsstring where
  "MSG_EMAIL =
     [0x627, 0x644, 0x628, 0x631, 0x64A, 0x62F, 0x20, 0x627, 0x644, 0x625,
      0x644, 0x643, 0x62A, 0x631, 0x648, 0x646, 0x64A, 0x20, 0x645, 0x637,
      0x644, 0x648, 0x628, 0x2E]"

definition MSG_PHONE :: jsstring where
  "MSG_PHONE =
     [0x631, 0x642, 0x645, 0x20, 0x627, 0x644, 0x647, 0x627, 0x62A, 0x641,
      0x20, 0x645, 0x637, 0x644, 0x648, 0x628, 0x2E]"

definition MSG_MESSAGE :: jsstring where
  "MSG_MESSAGE =
     [0x646, 0x635, 0x20, 0x627, 0x644, 0x631, 0x633, 0x627, 0x644, 0x629,
      0x20, 0x645, 0x637, 0x644, 0x648, 0x628, 0x2E]"

definition MSG_PROJECT_TYPE :: jsstring where
  "MSG_PROJECT_TYPE =
     [0x642, 0x64A, 0x645, 0x629, 0x20, 0x646, 0x648, 0x639, 0x20, 0x627,
      0x644, 0x645, 0x634, 0x631, 0x648, 0x639, 0x20, 0x63A, 0x64A, 0x631,
      0x20, 0x635, 0x627, 0x644, 0x62D, 0x629, 0x2E]"

text \<open>\<open>ALLOWED_TYPES\<close>, a \<open>Set\<close> of six strings, in insertion order.\<close>

definition ALLOWED_TYPES :: "jsval list" where
  "ALLOWED_TYPES =
     [JStr (ascii ''landing''), JStr (ascii ''website''), JStr (ascii ''ecommerce''),
      JStr (ascii ''info-app''), JStr (ascii ''booking-app''), JStr (ascii ''custom'')]"

text \<open>
  \<open>Set.prototype.has\<close> compares with SameValueZero: by value on primitives, by identity
  on objects, and a freshly parsed array or object is identical to no member of a set.
\<close>

fun has :: "jsval list \<Rightarrow> jsval \<Rightarrow> bool" where
  "has S (JArr xs) = False"
| "has S (JObj kvs) = False"
| "has S v = (v \<in> set S)"

text \<open>The object literal \<open>{ firstName, lastName, email, phone, projectType, message }\<close>.\<close>

record payload =
  firstName :: jsval
  lastName :: jsval
  email :: jsval
  phone :: jsval
  projectType :: jsval
  message :: jsval

text \<open>\<open>const reqStr = (v) => typeof v === "string" && v.trim().length > 0\<close>\<close>

definition reqStr :: "jsval \<Rightarrow> bool" where
  "reqStr v \<longleftrightarrow> typeof v = ''string'' \<and> (case v of JStr s \<Rightarrow> length (trim s) > 0 | _ \<Rightarrow> False)"

text \<open>Each \<open>errors.push\<close> appends at the end.\<close>

definition validatePayload :: "payload \<Rightarrow> jsstring list" where
  "validatePayload body =
     (let errors = [];
          errors = (if \<not> reqStr (firstName body) then errors @ [MSG_FIRST_NAME] else errors);
          errors = (if \<not> reqStr (lastName body) then errors @ [MSG_LAST_NAME] else errors);
          errors = (if \<not> reqStr (email body) then errors @ [MSG_EMAIL] else errors);
          errors = (if \<not> reqStr (phone body) then errors @ [MSG_PHONE] else errors);
          errors = (if \<not> reqStr (message body) then errors @ [MSG_MESSAGE] else errors);
          errors = (if truthy (projectType body) \<and> \<not> has ALLOWED_TYPES (projectType body)
                    then errors @ [MSG_PROJECT_TYPE] else errors)
      in errors)"

section \<open>The environment and the mail library\<close>

text \<open>\<open>process.env\<close>: a variable is a string, or absent.\<close>

type_synonym env = "string \<Rightarrow> jsstring option"

definition process_env :: "env \<Rightarrow> string \<Rightarrow> jsval" where
  "process_env e k = (case e k of None \<Rightarrow> JUndefined | Some s \<Rightarrow> JStr s)"

text \<open>
  The conversions between strings and numbers that the language provides. They round and
  print doubles, and the server's behaviour is stated for any such pair of functions.
\<close>

record platform =
  Number_of_string :: "jsstring \<Rightarrow> jsnum"
  String_of_number :: "jsnum \<Rightarrow> jsstring"

datatype transport_options =
    SmtpOptions (host: jsval) (port: jsnum) (secure: bool) (auth: "(jsstring \<times> jsstring) option")
  | StreamOptions (streamTransport: bool) (newline: jsstring) (buffer: bool)

record mail =
  m_from :: jsval
  m_to :: jsval
  m_replyTo :: jsval
  m_subject :: jsstring
  m_text :: jsstring
  m_html :: jsstring

text \<open>
  What \<open>sendMail\<close> resolves to: \<open>info.message\<close> is the buffered message of the stream
  transport (read through \<open>toString\<close>), \<open>info.messageId\<close> the identifier of a queued one.
\<close>

record info =
  info_message :: "jsstring option"
  info_messageId :: jsval

text \<open>
  nodemailer, as far as the server calls it. The library is not part of the repository.
  Everything it does over the network is a parameter: creating a network transport,
  verifying it and sending through it are functions of their arguments that return or
  throw, and \<open>'t\<close> is the network transport object. So are the two things the discard
  transport computes without the network: the source of the message it buffers, for a
  given line-break style, and the message identifier.
\<close>

record 't nodemailer =
  network_transport :: "transport_options \<Rightarrow> js_error + 't"
  network_verify :: "'t \<Rightarrow> js_error option"
  network_send :: "'t \<Rightarrow> mail \<Rightarrow> js_error + info"
  message_source :: "jsstring \<Rightarrow> mail \<Rightarrow> jsstring"
  message_id :: "mail \<Rightarrow> jsval"

text \<open>
  A transporter is a network transport of the library, or the discard transport with its
  line-break style.
\<close>

datatype 't transporter = NetworkTransport 't | DiscardTransport jsstring

text \<open>
  Modelled from the spec: the discard transport of the mail library, which is missing from
  the sources. The specification describes it as the transport that "buffers the composed
  message in memory ... instead of transmitting it over the network", so that "the request
  still completes successfully ... even when real mail delivery is unavailable". It is the
  transport created for options with \<open>streamTransport\<close> and \<open>buffer\<close> set: creating it does
  not throw, and sending through it resolves to an \<open>info\<close> whose \<open>message\<close> is the buffered
  source of the composed message. Every other call goes to the network side of the library.
\<close>

definition createTransport :: "'t nodemailer \<Rightarrow> transport_options \<Rightarrow> js_error + 't transporter" where
  "createTransport nm opts =
     (case opts of
        StreamOptions True nl True \<Rightarrow> Inr (DiscardTransport nl)
      | _ \<Rightarrow>
          (case network_transport nm opts of
             Inl err \<Rightarrow> Inl err
           | Inr t \<Rightarrow> Inr (NetworkTransport t)))"

text \<open>
  Modelled from the spec: verifying. The network is what verify probes; the discard
  transport, which uses none, has nothing that can fail. The server verifies only the
  transport it created for the SMTP options.
\<close>

definition verify :: "'t nodemailer \<Rightarrow> 't transporter \<Rightarrow> js_error option" where
  "verify nm transporter =
     (case transporter of
        NetworkTransport t \<Rightarrow> network_verify nm t
      | DiscardTransport nl \<Rightarrow> None)"

text \<open>
  Modelled from the spec: sending. Through a network transport it is the library's send,
  which returns or throws; through the discard transport the message is buffered and
  handed back in \<open>info.message\<close>, and nothing is transmitted.
\<close>

definition sendMail :: "'t nodemailer \<Rightarrow> 't transporter \<Rightarrow> mail \<Rightarrow> js_error + info" where
  "sendMail nm transporter m =
     (case transporter of
        NetworkTransport t \<Rightarrow> network_send nm t m
      | DiscardTransport nl \<Rightarrow>
          Inr \<lparr>info_message = Some (message_source nm nl m), info_messageId = message_id nm m\<rparr>)"

text \<open>What the server writes to the console: the values that go into each line.\<close>

datatype log_entry =
    SmtpReady jsval jsnum jsstring
  | SmtpVerifyFailed js_error
  | FallingBack
  | MailConsole jsstring
  | MailQueued jsval
  | HandlerError js_error

text \<open>
  The trace of a request: each call of the validator, each call into the mail library and
  each console line, in the order they happen.
\<close>

datatype 't event =
    ValidatePayload payload
  | CreateTransport transport_options
  | Verify "'t transporter"
  | SendMail "'t transporter" mail
  | Console log_entry

section \<open>Transport resolution\<close>

definition is_line_terminator :: "16 word \<Rightarrow> bool" where
  "is_line_terminator c \<longleftrightarrow> c = 0xA \<or> c = 0xD \<or> c = 0x2028 \<or> c = 0x2029"

text \<open>
  \<open>.replace(/.(?=.{3})/g, "*")\<close>: every code unit that is not a line terminator and is
  followed by three such code units becomes a star.
\<close>

fun mask_user :: "jsstring \<Rightarrow> jsstring" where
  "mask_user [] = []"
| "mask_user (c # cs) =
     (if \<not> is_line_terminator c \<and> 3 \<le> length cs \<and>
         (\<forall>d \<in> set (take 3 cs). \<not> is_line_terminator d)
      then 0x2A else c) # mask_user cs"

definition smtp_options :: "platform \<Rightarrow> env \<Rightarrow> transport_options" where
  "smtp_options pf e =
     (let host = process_env e ''SMTP_HOST'';
          port = (case js_or (process_env e ''SMTP_PORT'') (JNum (Finite 587)) of
                    JStr s \<Rightarrow> Number_of_string pf s
                  | JNum n \<Rightarrow> n
                  | _ \<Rightarrow> NaN);
          secure = (port = Finite 465)
      in SmtpOptions host port secure
           (case (e ''SMTP_USER'', e ''SMTP_PASS'') of
              (Some user, Some pass) \<Rightarrow> if user \<noteq> [] \<and> pass \<noteq> [] then Some (user, pass) else None
            | _ \<Rightarrow> None))"

definition getTransporter ::
  "platform \<Rightarrow> 't nodemailer \<Rightarrow> env \<Rightarrow> (js_error + 't transporter) \<times> 't event list" where
  "getTransporter pf nm e =
     (let opts = smtp_options pf e in
      case createTransport nm opts of
        Inl err \<Rightarrow> (Inl err, [CreateTransport opts])
      | Inr transporter \<Rightarrow>
          (case verify nm transporter of
             None \<Rightarrow>
               (let maskedUser = mask_user (case e ''SMTP_USER'' of None \<Rightarrow> [] | Some s \<Rightarrow> s)
                in (Inr transporter,
                    [CreateTransport opts, Verify transporter,
                     Console (SmtpReady (host opts) (port opts)
                       (if maskedUser \<noteq> [] then maskedUser else ascii ''(no-auth)''))]))
           | Some err \<Rightarrow>
               (let fallback_options = StreamOptions True (ascii ''unix'') True;
                    evs = [CreateTransport opts, Verify transporter,
                           Console (SmtpVerifyFailed err), Console FallingBack,
                           CreateTransport fallback_options]
                in case createTransport nm fallback_options of
                     Inl err' \<Rightarrow> (Inl err', evs)
                   | Inr fallback \<Rightarrow> (Inr fallback, evs))))"

section \<open>Composing the message\<close>

text \<open>
  ToString, as a template literal applies it to each substitution. An array joins the
  strings of its elements with commas, \<open>undefined\<close> and \<open>null\<close> elements giving the empty
  string. A parsed object prints as \<open>[object Object]\<close>, unless it has an own \<open>toString\<close>
  property: that property is parsed data and not callable, \<open>valueOf\<close> yields no primitive
  either, and the conversion throws.
\<close>

fun join_strings :: "(js_error + jsstring) list \<Rightarrow> js_error + jsstring" where
  "join_strings [] = Inr []"
| "join_strings [r] = r"
| "join_strings (r # rs) =
     (case r of
        Inl err \<Rightarrow> Inl err
      | Inr s \<Rightarrow> (case join_strings rs of Inl err \<Rightarrow> Inl err | Inr t \<Rightarrow> Inr (s @ ascii '','' @ t)))"

fun to_string :: "platform \<Rightarrow> jsval \<Rightarrow> js_error + jsstring" where
  "to_string pf JUndefined = Inr (ascii ''undefined'')"
| "to_string pf JNull = Inr (ascii ''null'')"
| "to_string pf (JBool b) = Inr (if b then ascii ''true'' else ascii ''false'')"
| "to_string pf (JNum n) = Inr (String_of_number pf n)"
| "to_string pf (JStr s) = Inr s"
| "to_string pf (JArr xs) =
     join_strings (map (\<lambda>x. if nullish x then Inr [] else to_string pf x) xs)"
| "to_string pf (JObj kvs) =
     (if map_of kvs (ascii ''toString'') = None
      then Inr (ascii ''[object Object]'')
      else Inl (TypeError (ascii ''Cannot convert object to primitive value'')))"

definition HTML_0 :: jsstring where
  "HTML_0 =
       [0xA, 0x20, 0x20, 0x20, 0x20, 0x20, 0x20] @
       ascii ''<div style='' @
       [0x22] @
       ascii ''font-family:system-ui,-apple-system,Segoe UI,Roboto,Ubuntu,Cairo'' @
       ascii '',sans-serif;line-height:1.6'' @
       [0x22] @
       ascii ''>'' @
       [0xA, 0x20, 0x20, 0x20, 0x20, 0x20, 0x20, 0x20, 0x20] @
       ascii ''<h2>'' @
       [0x631, 0x633, 0x627, 0x644, 0x629, 0x20, 0x62C, 0x62F, 0x64A, 0x62F, 0x629] @
       ascii ''</h2>'' @
       [0xA, 0x20, 0x20, 0x20, 0x20, 0x20, 0x20, 0x20, 0x20] @
       ascii ''<ul>'' @
       [0xA, 0x20, 0x20, 0x20, 0x20, 0x20, 0x20, 0x20, 0x20, 0x20, 0x20] @
       ascii ''<li><b>'' @
       [0x627, 0x644, 0x627, 0x633, 0x645] @
       ascii '':</b> ''"

definition HTML_1 :: jsstring where
  "HTML_1 =
       ascii '' ''"

definition HTML_2 :: jsstring where
  "HTML_2 =
       ascii ''</li>'' @
       [0xA, 0x20, 0x20, 0x20, 0x20, 0x20, 0x20, 0x20, 0x20, 0x20, 0x20] @
       ascii ''<li><b>'' @
       [0x627, 0x644, 0x628, 0x631, 0x64A, 0x62F] @
       ascii '':</b> ''"

definition HTML_3 :: jsstring where
  "HTML_3 =
       ascii ''</li>'' @
       [0xA, 0x20, 0x20, 0x20, 0x20, 0x20, 0x20, 0x20, 0x20, 0x20, 0x20] @
       ascii ''<li><b>'' @
       [0x627, 0x644, 0x647, 0x627, 0x62A, 0x641] @
       ascii '':</b> ''"

definition HTML_4 :: jsstring where
  "HTML_4 =
       ascii ''</li>'' @
       [0xA, 0x20, 0x20, 0x20, 0x20, 0x20, 0x20, 0x20, 0x20, 0x20, 0x20] @
       ascii ''<li><b>'' @
       [0x646, 0x648, 0x639, 0x20, 0x627, 0x644, 0x645, 0x634, 0x631, 0x648, 0x639] @
       ascii '':</b> ''"

definition HTML_5 :: jsstring where
  "HTML_5 =
       ascii ''</li>'' @
       [0xA, 0x20, 0x20, 0x20, 0x20, 0x20, 0x20, 0x20, 0x20] @
       ascii ''</ul>'' @
       [0xA, 0x20, 0x20, 0x20, 0x20, 0x20, 0x20, 0x20, 0x20] @
       ascii ''<pre style='' @
       [0x22] @
       ascii ''white-space:pre-wrap;background:#f7f7f7;padding:12px;border-radi'' @
       ascii ''us:8px'' @
       [0x22] @
       ascii ''>''"

definition HTML_6 :: jsstring where
  "HTML_6 =
       ascii ''</pre>'' @
       [0xA, 0x20, 0x20, 0x20, 0x20, 0x20, 0x20] @
       ascii ''</div>'' @
       [0xA, 0x20, 0x20, 0x20, 0x20]"

text \<open>The labels of the plain-text body, each with its colon and space.\<close>

definition LABEL_NAME :: jsstring where
  "LABEL_NAME = [0x627, 0x644, 0x627, 0x633, 0x645] @ ascii '': ''"

definition LABEL_EMAIL :: jsstring where
  "LABEL_EMAIL = [0x627, 0x644, 0x628, 0x631, 0x64A, 0x62F] @ ascii '': ''"

definition LABEL_PHONE :: jsstring where
  "LABEL_PHONE = [0x627, 0x644, 0x647, 0x627, 0x62A, 0x641] @ ascii '': ''"

definition LABEL_PROJECT_TYPE :: jsstring where
  "LABEL_PROJECT_TYPE =
     [0x646, 0x648, 0x639, 0x20, 0x627, 0x644, 0x645, 0x634, 0x631, 0x648, 0x639] @ ascii '': ''"

definition NL :: jsstring where
  "NL = [0xA]"

definition SUBJECT :: jsstring where
  "SUBJECT =
     [0x631, 0x633, 0x627, 0x644, 0x629, 0x20, 0x62C, 0x62F, 0x64A, 0x62F,
      0x629, 0x20, 0x645, 0x646, 0x20, 0x646, 0x645, 0x648, 0x630, 0x62C,
      0x20, 0x627, 0x644, 0x62A, 0x648, 0x627, 0x635, 0x644]"

text \<open>
  The six substitutions of either template, converted in the order they are written:
  \<open>firstName\<close>, \<open>lastName\<close>, \<open>email\<close>, \<open>phone\<close>, \<open>projectType || "-"\<close>, \<open>message\<close>.
  The first conversion that throws ends the evaluation.
\<close>

fun sequence :: "(js_error + 'a) list \<Rightarrow> js_error + 'a list" where
  "sequence [] = Inr []"
| "sequence (r # rs) =
     (case r of
        Inl err \<Rightarrow> Inl err
      | Inr x \<Rightarrow> (case sequence rs of Inl err \<Rightarrow> Inl err | Inr xs \<Rightarrow> Inr (x # xs)))"

definition substitutions :: "platform \<Rightarrow> payload \<Rightarrow> js_error + jsstring list" where
  "substitutions pf p =
     sequence
       [to_string pf (firstName p), to_string pf (lastName p), to_string pf (email p),
        to_string pf (phone p), to_string pf (js_or (projectType p) (JStr (ascii ''-''))),
        to_string pf (message p)]"

definition html_body :: "jsstring list \<Rightarrow> jsstring" where
  "html_body ss =
     HTML_0 @ ss ! 0 @ HTML_1 @ ss ! 1 @ HTML_2 @ ss ! 2 @ HTML_3 @ ss ! 3 @
     HTML_4 @ ss ! 4 @ HTML_5 @ ss ! 5 @ HTML_6"

definition text_body :: "jsstring list \<Rightarrow> jsstring" where
  "text_body ss =
     LABEL_NAME @ ss ! 0 @ ascii '' '' @ ss ! 1 @ NL @
     LABEL_EMAIL @ ss ! 2 @ NL @
     LABEL_PHONE @ ss ! 3 @ NL @
     LABEL_PROJECT_TYPE @ ss ! 4 @ NL @
     ascii ''---'' @ NL @
     ss ! 5"

text \<open>
  Lines 108 to 139 of the handler: subject, both bodies, the addresses, and the object
  passed to \<open>sendMail\<close>.
\<close>

definition compose :: "platform \<Rightarrow> env \<Rightarrow> payload \<Rightarrow> js_error + mail" where
  "compose pf e p =
     (case substitutions pf p of
        Inl err \<Rightarrow> Inl err
      | Inr ss \<Rightarrow>
          (let subject = SUBJECT;
               html = html_body ss;
               text = text_body ss;
               fromAddr = js_or (process_env e ''MAIL_FROM'')
                            (js_or (process_env e ''SMTP_USER'')
                               (JStr (ascii ''no-reply@example.com'')));
               toAddr = js_or (process_env e ''MAIL_TO'')
                          (js_or (process_env e ''SMTP_USER'') (email p))
           in Inr \<lparr>m_from = fromAddr, m_to = toAddr, m_replyTo = email p,
                   m_subject = subject, m_text = text, m_html = html\<rparr>))"

section \<open>The validator on a store\<close>

text \<open>
  The same function with its effects written out, statement by statement. A store holds
  the arrays allocated so far, the reference of an array being its index, and the calls
  made to the outside of the program (console, mail library) so far. \<open>const errors = []\<close>
  allocates an array, \<open>errors.push\<close> writes to it, and \<open>return errors\<close> hands back the
  reference. \<open>ALLOWED_TYPES\<close> is bound once, at line 26, and no statement of the file calls
  a method that changes it, so it is the constant above.
\<close>

record 't store =
  arrays :: "jsstring list list"
  calls :: "'t event list"

definition new_array :: "'t store \<Rightarrow> nat \<times> 't store" where
  "new_array s = (length (arrays s), s\<lparr>arrays := arrays s @ [[]]\<rparr>)"

definition push :: "nat \<Rightarrow> jsstring \<Rightarrow> 't store \<Rightarrow> 't store" where
  "push r x s = s\<lparr>arrays := (arrays s)[r := arrays s ! r @ [x]]\<rparr>"

definition validatePayload_run :: "payload \<Rightarrow> 't store \<Rightarrow> nat \<times> 't store" where
  "validatePayload_run body s0 =
     (let (errors, s) = new_array s0;
          s = (if \<not> reqStr (firstName body) then push errors MSG_FIRST_NAME s else s);
          s = (if \<not> reqStr (lastName body) then push errors MSG_LAST_NAME s else s);
          s = (if \<not> reqStr (email body) then push errors MSG_EMAIL s else s);
          s = (if \<not> reqStr (phone body) then push errors MSG_PHONE s else s);
          s = (if \<not> reqStr (message body) then push errors MSG_MESSAGE s else s);
          s = (if truthy (projectType body) \<and> \<not> has ALLOWED_TYPES (projectType body)
               then push errors MSG_PROJECT_TYPE s else s)
      in (errors, s))"

section \<open>The contact route\<close>

definition MSG_RECEIVED :: jsstring where
  "MSG_RECEIVED =
     [0x62A, 0x645, 0x20, 0x627, 0x644, 0x627, 0x633, 0x62A, 0x644, 0x627,
      0x645, 0x2E]"

definition MSG_SUCCESS :: jsstring where
  "MSG_SUCCESS =
     [0x62A, 0x645, 0x20, 0x627, 0x633, 0x62A, 0x644, 0x627, 0x645, 0x20,
      0x631, 0x633, 0x627, 0x644, 0x62A, 0x643, 0x20, 0x628, 0x646, 0x62C,
      0x627, 0x62D]"

definition MSG_SEND_FAILED :: jsstring where
  "MSG_SEND_FAILED =
     [0x62E, 0x637, 0x623, 0x20, 0x641, 0x64A, 0x20, 0x627, 0x644, 0x625,
      0x631, 0x633, 0x627, 0x644]"

text \<open>\<open>res.status(n).json(body)\<close>; \<open>res.json(body)\<close> leaves the status at 200.\<close>

datatype response = Response (status: nat) (body: jsval)

definition acknowledged :: response where
  "acknowledged =
     Response 200 (JObj [(ascii ''ok'', JBool True), (ascii ''message'', JStr MSG_RECEIVED)])"

definition rejected :: "jsstring list \<Rightarrow> response" where
  "rejected errors =
     Response 400
       (JObj [(ascii ''ok'', JBool False),
              (ascii ''message'', (case errors of [] \<Rightarrow> JUndefined | e # _ \<Rightarrow> JStr e)),
              (ascii ''errors'', JArr (map JStr errors))])"

definition succeeded :: response where
  "succeeded =
     Response 200 (JObj [(ascii ''ok'', JBool True), (ascii ''message'', JStr MSG_SUCCESS)])"

definition failed :: response where
  "failed =
     Response 500 (JObj [(ascii ''ok'', JBool False), (ascii ''message'', JStr MSG_SEND_FAILED)])"

text \<open>
  \<open>typeof req.body.company === "string" && req.body.company.trim() !== ""\<close>, on the value
  read from the body.
\<close>

definition honeypot :: "jsval \<Rightarrow> bool" where
  "honeypot company \<longleftrightarrow>
     typeof company = ''string'' \<and> (case company of JStr s \<Rightarrow> trim s \<noteq> [] | _ \<Rightarrow> False)"

text \<open>
  \<open>const { firstName, lastName, email, phone, projectType = "", message } = req.body || {}\<close>:
  the default stands in for a property that is \<open>undefined\<close>.
\<close>

definition destructure :: "jsval \<Rightarrow> payload" where
  "destructure req_body =
     (let src = js_or req_body (JObj []) in
      \<lparr>firstName = property src (ascii ''firstName''),
       lastName = property src (ascii ''lastName''),
       email = property src (ascii ''email''),
       phone = property src (ascii ''phone''),
       projectType =
         (let v = property src (ascii ''projectType'') in if v = JUndefined then JStr [] else v),
       message = property src (ascii ''message'')\<rparr>)"

text \<open>The two branches that log what \<open>sendMail\<close> resolved to.\<close>

definition log_info :: "info \<Rightarrow> 't event list" where
  "log_info i =
     (case info_message i of
        Some m \<Rightarrow> [Console (MailConsole m)]
      | None \<Rightarrow> if truthy (info_messageId i) then [Console (MailQueued (info_messageId i))] else [])"

text \<open>
  The body of the \<open>try\<close> block: resolve the transport, compose, send, log. \<open>Inl\<close> is the
  exception that reaches the \<open>catch\<close>.
\<close>

definition dispatch ::
  "platform \<Rightarrow> 't nodemailer \<Rightarrow> env \<Rightarrow> payload \<Rightarrow> (js_error + unit) \<times> 't event list" where
  "dispatch pf nm e p =
     (case getTransporter pf nm e of
        (Inl err, evs) \<Rightarrow> (Inl err, evs)
      | (Inr transporter, evs) \<Rightarrow>
          (case compose pf e p of
             Inl err \<Rightarrow> (Inl err, evs)
           | Inr m \<Rightarrow>
               (case sendMail nm transporter m of
                  Inl err \<Rightarrow> (Inl err, evs @ [SendMail transporter m])
                | Inr i \<Rightarrow> (Inr (), evs @ [SendMail transporter m] @ log_info i))))"

text \<open>
  \<open>app.post("/api/contact", ...)\<close> on the parsed body \<open>req.body\<close>. The result is the response
  sent, or the exception that leaves the handler, together with the trace.
\<close>

definition contact ::
  "platform \<Rightarrow> 't nodemailer \<Rightarrow> env \<Rightarrow> jsval \<Rightarrow> (js_error + response) \<times> 't event list" where
  "contact pf nm e req_body =
     (case get_prop req_body (ascii ''company'') of
        Inl err \<Rightarrow> (Inl err, [])
      | Inr company \<Rightarrow>
          if honeypot company then (Inr acknowledged, [])
          else
            (let p = destructure req_body;
                 errors = validatePayload p
             in if errors \<noteq> [] then (Inr (rejected errors), [ValidatePayload p])
                else
                  (case dispatch pf nm e p of
                     (Inl err, evs) \<Rightarrow>
                       (Inr failed, ValidatePayload p # evs @ [Console (HandlerError err)])
                   | (Inr u, evs) \<Rightarrow> (Inr succeeded, ValidatePayload p # evs))))"

section \<open>Vocabulary of the specification\<close>

text \<open>A field that is missing, or a string that is blank after trimming.\<close>

fun missing_or_blank :: "jsval \<Rightarrow> bool" where
  "missing_or_blank JUndefined = True"
| "missing_or_blank (JStr s) = (trim s = [])"
| "missing_or_blank v = False"

text \<open>
  The six rules of the specification, in its words and its order. Rules 1 to 5 ask that the
  field be "non-empty after trimming": a string with at least one character that is not
  white space. Rule 6 reads "if \<open>projectType\<close> is present and non-empty, it must be a member
  of the fixed category enumeration", the enumeration being \<open>landing\<close>, \<open>website\<close>,
  \<open>ecommerce\<close>, \<open>info-app\<close>, \<open>booking-app\<close>, \<open>custom\<close>. Each rule is paired with the
  error appended when it is broken.
\<close>

fun non_empty_after_trimming :: "jsval \<Rightarrow> bool" where
  "non_empty_after_trimming (JStr s) = (\<exists>c \<in> set s. \<not> is_white_space c)"
| "non_empty_after_trimming v = False"

definition present_and_non_empty :: "jsval \<Rightarrow> bool" where
  "present_and_non_empty v \<longleftrightarrow> \<not> nullish v \<and> v \<noteq> JStr []"

definition CATEGORIES :: "jsstring list" where
  "CATEGORIES =
     [ascii ''landing'', ascii ''website'', ascii ''ecommerce'', ascii ''info-app'',
      ascii ''booking-app'', ascii ''custom'']"

definition member_of_enumeration :: "jsval \<Rightarrow> bool" where
  "member_of_enumeration v \<longleftrightarrow> v \<in> JStr ` set CATEGORIES"

definition required_rules :: "payload \<Rightarrow> (bool \<times> jsstring) list" where
  "required_rules p =
     [(\<not> non_empty_after_trimming (firstName p), MSG_FIRST_NAME),
      (\<not> non_empty_after_trimming (lastName p), MSG_LAST_NAME),
      (\<not> non_empty_after_trimming (email p), MSG_EMAIL),
      (\<not> non_empty_after_trimming (phone p), MSG_PHONE),
      (\<not> non_empty_after_trimming (message p), MSG_MESSAGE)]"

definition spec_rules :: "payload \<Rightarrow> (bool \<times> jsstring) list" where
  "spec_rules p =
     required_rules p @
     [(present_and_non_empty (projectType p) \<and> \<not> member_of_enumeration (projectType p),
       MSG_PROJECT_TYPE)]"

definition spec_errors :: "payload \<Rightarrow> jsstring list" where
  "spec_errors p = map snd (filter fst (spec_rules p))"

text \<open>
  The rules as amended: rule 6 asks for membership only of a truthy \<open>projectType\<close>. The
  other five are those of the specification.
\<close>

definition amended_rules :: "payload \<Rightarrow> (bool \<times> jsstring) list" where
  "amended_rules p =
     required_rules p @
     [(truthy (projectType p) \<and> \<not> member_of_enumeration (projectType p), MSG_PROJECT_TYPE)]"

definition applicable_errors :: "payload \<Rightarrow> jsstring list" where
  "applicable_errors p = map snd (filter fst (amended_rules p))"

text \<open>A configuration variable is set when it is defined and not empty.\<close>

definition env_set :: "env \<Rightarrow> string \<Rightarrow> bool" where
  "env_set e k = (case e k of None \<Rightarrow> False | Some s \<Rightarrow> s \<noteq> [])"

text \<open>The lines of a text: the pieces between line feeds.\<close>

fun split_lines :: "jsstring \<Rightarrow> jsstring list" where
  "split_lines [] = [[]]"
| "split_lines (c # cs) =
     (if c = 0xA then [] # split_lines cs
      else (case split_lines cs of [] \<Rightarrow> [[c]] | l # ls \<Rightarrow> (c # l) # ls))"

section \<open>Example requests and configurations\<close>

text \<open>The conversions between strings and numbers are not reached in the examples.\<close>

definition example_platform :: platform where
  "example_platform =
     \<lparr>Number_of_string = (\<lambda>s. NaN), String_of_number = (\<lambda>n. ascii ''NaN'')\<rparr>"

definition empty_env :: env where
  "empty_env = (\<lambda>k. None)"

definition smtp_user_env :: env where
  "smtp_user_env = (\<lambda>k. if k = ''SMTP_USER'' then Some (ascii ''owner@example.com'') else None)"

text \<open>
  Three mail libraries for the examples; their network transport is the unit value. The
  first cannot reach its server: verify fails, and so does a send over the network.
\<close>

definition smtp_down :: "unit nodemailer" where
  "smtp_down =
     \<lparr>network_transport = (\<lambda>opts. Inr ()),
      network_verify = (\<lambda>t. Some (ThrownError (ascii ''connect ECONNREFUSED''))),
      network_send = (\<lambda>t m. Inl (ThrownError (ascii ''connect ECONNREFUSED''))),
      message_source = (\<lambda>nl m. m_text m),
      message_id = (\<lambda>m. JStr (ascii ''id-1''))\<rparr>"

text \<open>A mail server that verifies and then rejects the message.\<close>

definition send_rejected :: "unit nodemailer" where
  "send_rejected =
     \<lparr>network_transport = (\<lambda>opts. Inr ()),
      network_verify = (\<lambda>t. None),
      network_send = (\<lambda>t m. Inl (ThrownError (ascii ''550 mailbox unavailable''))),
      message_source = (\<lambda>nl m. m_text m),
      message_id = (\<lambda>m. JStr (ascii ''id-1''))\<rparr>"

text \<open>A mail server that verifies and accepts the message.\<close>

definition smtp_up :: "unit nodemailer" where
  "smtp_up =
     \<lparr>network_transport = (\<lambda>opts. Inr ()),
      network_verify = (\<lambda>t. None),
      network_send = (\<lambda>t m. Inr \<lparr>info_message = None, info_messageId = JStr (ascii ''id-2'')\<rparr>),
      message_source = (\<lambda>nl m. m_text m),
      message_id = (\<lambda>m. JStr (ascii ''id-2''))\<rparr>"

definition sara_payload :: payload where
  "sara_payload =
     \<lparr>firstName = JStr (ascii ''Sara''), lastName = JStr (ascii ''Ali''),
      email = JStr (ascii ''sara@example.com''), phone = JStr (ascii ''0500000000''),
      projectType = JStr (ascii ''landing''), message = JStr (ascii ''Hello'')\<rparr>"

definition sara_body :: jsval where
  "sara_body =
     JObj [(ascii ''firstName'', JStr (ascii ''Sara'')), (ascii ''lastName'', JStr (ascii ''Ali'')),
           (ascii ''email'', JStr (ascii ''sara@example.com'')),
           (ascii ''phone'', JStr (ascii ''0500000000'')),
           (ascii ''projectType'', JStr (ascii ''landing'')),
           (ascii ''message'', JStr (ascii ''Hello''))]"

text \<open>The same submission without a project type.\<close>

definition sara_untyped_body :: jsval where
  "sara_untyped_body =
     JObj [(ascii ''firstName'', JStr (ascii ''Sara'')), (ascii ''lastName'', JStr (ascii ''Ali'')),
           (ascii ''email'', JStr (ascii ''sara@example.com'')),
           (ascii ''phone'', JStr (ascii ''0500000000'')),
           (ascii ''message'', JStr (ascii ''Hello''))]"

text \<open>The same submission with the project type \<open>false\<close>.\<close>

definition sara_false_type_body :: jsval where
  "sara_false_type_body =
     JObj [(ascii ''firstName'', JStr (ascii ''Sara'')), (ascii ''lastName'', JStr (ascii ''Ali'')),
           (ascii ''email'', JStr (ascii ''sara@example.com'')),
           (ascii ''phone'', JStr (ascii ''0500000000'')),
           (ascii ''projectType'', JBool False),
           (ascii ''message'', JStr (ascii ''Hello''))]"

text \<open>A submission without a first name and with the project type \<open>false\<close>.\<close>

definition no_first_name_false_type_body :: jsval where
  "no_first_name_false_type_body =
     JObj [(ascii ''lastName'', JStr (ascii ''Ali'')),
           (ascii ''email'', JStr (ascii ''sara@example.com'')),
           (ascii ''phone'', JStr (ascii ''0500000000'')),
           (ascii ''projectType'', JBool False),
           (ascii ''message'', JStr (ascii ''Hello''))]"

text \<open>A store with one array in it and one line written to the console.\<close>

definition example_store :: "unit store" where
  "example_store = \<lparr>arrays = [[MSG_EMAIL]], calls = [Console FallingBack]\<rparr>"

text \<open>A submission that fills only the honeypot.\<close>

definition bot_body :: jsval where
  "bot_body = JObj [(ascii ''company'', JStr (ascii ''Acme''))]"

text \<open>A submission whose honeypot holds one space, and nothing else.\<close>

definition blank_company_body :: jsval where
  "blank_company_body = JObj [(ascii ''company'', JStr (ascii '' ''))]"

text \<open>A submission without a first name, and one whose last name is a number.\<close>

definition no_first_name_body :: jsval where
  "no_first_name_body =
     JObj [(ascii ''lastName'', JStr (ascii ''Ali'')),
           (ascii ''email'', JStr (ascii ''sara@example.com'')),
           (ascii ''phone'', JStr (ascii ''0500000000'')),
           (ascii ''message'', JStr (ascii ''Hello''))]"

definition numeric_last_name :: payload where
  "numeric_last_name = sara_payload\<lparr>lastName := JNum (Finite 7)\<rparr>"

section \<open>Properties of the values\<close>

lemma typeof_string_iff: "typeof v = ''string'' \<longleftrightarrow> (\<exists>s. v = JStr s)"
  by (cases v) simp_all

lemma reqStr_iff: "reqStr v \<longleftrightarrow> (\<exists>s. v = JStr s \<and> trim s \<noteq> [])"
  by (cases v) (simp_all add: reqStr_def)

lemma honeypot_iff: "honeypot v \<longleftrightarrow> (\<exists>s. v = JStr s \<and> trim s \<noteq> [])"
  by (cases v) (simp_all add: honeypot_def)

lemma all_dropWhile: "(\<forall>x \<in> set (dropWhile P xs). P x) \<longleftrightarrow> (\<forall>x \<in> set xs. P x)"
  by (induction xs) auto

lemma trim_Nil_iff: "trim s = [] \<longleftrightarrow> (\<forall>c \<in> set s. is_white_space c)"
  by (simp add: trim_def all_dropWhile)

lemma missing_or_blank_not_reqStr: "missing_or_blank v \<Longrightarrow> \<not> reqStr v"
  by (cases v) (simp_all add: reqStr_def)

lemma has_ALLOWED_TYPES: "has ALLOWED_TYPES v \<longleftrightarrow> v \<in> set ALLOWED_TYPES"
  by (cases v) (simp_all add: ALLOWED_TYPES_def)

lemma has_ALLOWED_TYPES_string: "has ALLOWED_TYPES v \<Longrightarrow> \<exists>s. v = JStr s"
  by (cases v) (auto simp: ALLOWED_TYPES_def)

lemma non_empty_after_trimming_iff: "non_empty_after_trimming v \<longleftrightarrow> reqStr v"
  by (cases v) (auto simp: reqStr_def trim_Nil_iff)

lemma member_of_enumeration_iff: "member_of_enumeration v \<longleftrightarrow> has ALLOWED_TYPES v"
  by (cases v) (auto simp: member_of_enumeration_def CATEGORIES_def ALLOWED_TYPES_def)

section \<open>Properties of the validator\<close>

lemma validatePayload_append:
  "validatePayload p =
     (if \<not> reqStr (firstName p) then [MSG_FIRST_NAME] else []) @
     (if \<not> reqStr (lastName p) then [MSG_LAST_NAME] else []) @
     (if \<not> reqStr (email p) then [MSG_EMAIL] else []) @
     (if \<not> reqStr (phone p) then [MSG_PHONE] else []) @
     (if \<not> reqStr (message p) then [MSG_MESSAGE] else []) @
     (if truthy (projectType p) \<and> \<not> has ALLOWED_TYPES (projectType p)
      then [MSG_PROJECT_TYPE] else [])"
  by (simp add: validatePayload_def Let_def)

lemma validatePayload_Nil_iff:
  "validatePayload p = [] \<longleftrightarrow>
     reqStr (firstName p) \<and> reqStr (lastName p) \<and> reqStr (email p) \<and> reqStr (phone p) \<and>
     reqStr (message p) \<and> (truthy (projectType p) \<longrightarrow> has ALLOWED_TYPES (projectType p))"
  by (simp add: validatePayload_append)

section \<open>Properties of the route\<close>

lemma property_nullish: "nullish b \<Longrightarrow> property b k = JUndefined"
  by (auto simp: nullish_def)

lemma contact_honeypot:
  "honeypot (property b (ascii ''company'')) \<Longrightarrow> contact pf nm e b = (Inr acknowledged, [])"
  by (cases "nullish b") (auto simp: contact_def get_prop_def property_nullish honeypot_def)

lemma contact_validated:
  assumes "\<not> nullish b" and "\<not> honeypot (property b (ascii ''company''))"
  shows "contact pf nm e b =
           (if validatePayload (destructure b) \<noteq> []
            then (Inr (rejected (validatePayload (destructure b))),
                  [ValidatePayload (destructure b)])
            else (case dispatch pf nm e (destructure b) of
                    (Inl err, evs) \<Rightarrow>
                      (Inr failed,
                       ValidatePayload (destructure b) # evs @ [Console (HandlerError err)])
                  | (Inr u, evs) \<Rightarrow> (Inr succeeded, ValidatePayload (destructure b) # evs)))"
  using assms by (simp add: contact_def get_prop_def Let_def)

section \<open>Properties of the dispatch\<close>

lemma createTransport_smtp:
  "createTransport nm (smtp_options pf e) =
     (case network_transport nm (smtp_options pf e) of
        Inl err \<Rightarrow> Inl err | Inr t \<Rightarrow> Inr (NetworkTransport t))"
  by (simp add: createTransport_def smtp_options_def Let_def)

lemma createTransport_fallback:
  "createTransport nm (StreamOptions True nl True) = Inr (DiscardTransport nl)"
  by (simp add: createTransport_def)

lemma getTransporter_create_fails:
  "network_transport nm (smtp_options pf e) = Inl err \<Longrightarrow>
   getTransporter pf nm e = (Inl err, [CreateTransport (smtp_options pf e)])"
  by (simp add: getTransporter_def Let_def createTransport_smtp)

lemma getTransporter_verified:
  "network_transport nm (smtp_options pf e) = Inr t \<Longrightarrow> network_verify nm t = None \<Longrightarrow>
   fst (getTransporter pf nm e) = Inr (NetworkTransport t)"
  by (simp add: getTransporter_def Let_def createTransport_smtp verify_def)

lemma getTransporter_fallback:
  "network_transport nm (smtp_options pf e) = Inr t \<Longrightarrow> network_verify nm t = Some err \<Longrightarrow>
   getTransporter pf nm e =
     (Inr (DiscardTransport (ascii ''unix'')),
      [CreateTransport (smtp_options pf e), Verify (NetworkTransport t),
       Console (SmtpVerifyFailed err), Console FallingBack,
       CreateTransport (StreamOptions True (ascii ''unix'') True)])"
  by (simp add: getTransporter_def Let_def createTransport_smtp verify_def
      createTransport_fallback)

lemma getTransporter_no_send:
  "SendMail t m \<notin> set (snd (getTransporter pf nm e))"
  by (auto simp: getTransporter_def Let_def split: sum.splits option.splits)

lemma getTransporter_no_validate:
  "ValidatePayload p \<notin> set (snd (getTransporter pf nm e))"
  by (auto simp: getTransporter_def Let_def split: sum.splits option.splits)

lemma log_info_console:
  "x \<in> set (log_info i) \<Longrightarrow> \<exists>l. x = Console l"
  by (auto simp: log_info_def split: option.splits if_splits)

lemma dispatch_send:
  assumes "SendMail t m \<in> set (snd (dispatch pf nm e p))"
  shows "compose pf e p = Inr m \<and> fst (getTransporter pf nm e) = Inr t"
proof (cases "getTransporter pf nm e")
  case (Pair r evs)
  have ns: "SendMail t m \<notin> set evs"
    using getTransporter_no_send [of t m pf nm e] Pair by simp
  show ?thesis
  proof (cases r)
    case (Inl err)
    with assms Pair ns show ?thesis by (simp add: dispatch_def)
  next
    case (Inr t')
    show ?thesis
    proof (cases "compose pf e p")
      case (Inl err)
      with assms Pair \<open>r = Inr t'\<close> ns show ?thesis by (simp add: dispatch_def)
    next
      case (Inr m')
      with assms Pair \<open>r = Inr t'\<close> ns show ?thesis
        by (cases "sendMail nm t' m'") (auto simp: dispatch_def dest: log_info_console)
    qed
  qed
qed

lemma dispatch_no_validate:
  "ValidatePayload q \<notin> set (snd (dispatch pf nm e p))"
proof (cases "getTransporter pf nm e")
  case (Pair r evs)
  have nv: "ValidatePayload q \<notin> set evs"
    using getTransporter_no_validate [of q pf nm e] Pair by simp
  then show ?thesis
    using Pair by (auto simp: dispatch_def split: sum.splits dest: log_info_console)
qed

lemma dispatch_fails_iff:
  "(\<exists>err. fst (dispatch pf nm e p) = Inl err) \<longleftrightarrow>
     (\<exists>err. fst (getTransporter pf nm e) = Inl err) \<or>
     (\<exists>err. compose pf e p = Inl err) \<or>
     (\<exists>t m err. fst (getTransporter pf nm e) = Inr t \<and> compose pf e p = Inr m \<and>
                 sendMail nm t m = Inl err)"
  by (cases "getTransporter pf nm e") (auto simp: dispatch_def split: sum.splits)

lemma dispatch_succeeds:
  "fst (getTransporter pf nm e) = Inr t \<Longrightarrow> compose pf e p = Inr m \<Longrightarrow>
   sendMail nm t m = Inr i \<Longrightarrow>
   fst (dispatch pf nm e p) = Inr () \<and> SendMail t m \<in> set (snd (dispatch pf nm e p))"
  by (cases "getTransporter pf nm e") (simp add: dispatch_def)

lemma contact_dispatched:
  assumes "\<not> nullish b" and "\<not> honeypot (property b (ascii ''company''))"
    and "validatePayload (destructure b) = []"
  shows "fst (contact pf nm e b) =
           (case fst (dispatch pf nm e (destructure b)) of
              Inl err \<Rightarrow> Inr failed | Inr u \<Rightarrow> Inr succeeded)"
    and "set (snd (contact pf nm e b)) \<subseteq>
           insert (ValidatePayload (destructure b))
             (set (snd (dispatch pf nm e (destructure b))) \<union> range Console)"
    and "set (snd (dispatch pf nm e (destructure b))) \<subseteq> set (snd (contact pf nm e b))"
  using assms
  by (cases "dispatch pf nm e (destructure b)";
      auto simp: contact_validated split: sum.splits)+

lemma contact_events:
  "set (snd (contact pf nm e b)) \<subseteq>
     insert (ValidatePayload (destructure b))
       (set (snd (dispatch pf nm e (destructure b))) \<union> range Console)"
proof (cases "nullish b \<or> honeypot (property b (ascii ''company''))")
  case True
  then show ?thesis
    by (auto simp: contact_honeypot contact_def get_prop_def)
next
  case False
  then show ?thesis
    by (cases "dispatch pf nm e (destructure b)")
       (auto simp: contact_validated split: sum.splits)
qed

lemma substitutions_valid:
  assumes "validatePayload p = []"
  shows "\<exists>f l m ph pt msg.
           firstName p = JStr f \<and> lastName p = JStr l \<and> email p = JStr m \<and> phone p = JStr ph \<and>
           js_or (projectType p) (JStr (ascii ''-'')) = JStr pt \<and> message p = JStr msg \<and>
           substitutions pf p = Inr [f, l, m, ph, pt, msg]"
proof -
  from assms have r: "reqStr (firstName p)" "reqStr (lastName p)" "reqStr (email p)"
      "reqStr (phone p)" "reqStr (message p)"
    and t: "truthy (projectType p) \<longrightarrow> has ALLOWED_TYPES (projectType p)"
    by (simp_all add: validatePayload_Nil_iff)
  from r obtain f l m ph msg where
    s: "firstName p = JStr f" "lastName p = JStr l" "email p = JStr m" "phone p = JStr ph"
       "message p = JStr msg"
    by (auto simp: reqStr_iff)
  from t obtain pt where pt: "js_or (projectType p) (JStr (ascii ''-'')) = JStr pt"
    by (cases "truthy (projectType p)") (auto simp: js_or_def dest: has_ALLOWED_TYPES_string)
  show ?thesis using s pt by (simp add: substitutions_def)
qed

lemma compose_valid:
  assumes "validatePayload p = []"
  shows "\<exists>m. compose pf e p = Inr m"
  using substitutions_valid [OF assms, of pf] by (auto simp: compose_def Let_def)

lemma process_env_or:
  "js_or (process_env e k) d = (if env_set e k then process_env e k else d)"
  by (simp add: js_or_def process_env_def env_set_def split: option.splits)

lemma compose_addresses:
  assumes "compose pf e p = Inr m"
  shows "m_from m = js_or (process_env e ''MAIL_FROM'')
                      (js_or (process_env e ''SMTP_USER'') (JStr (ascii ''no-reply@example.com'')))"
    and "m_to m = js_or (process_env e ''MAIL_TO'') (js_or (process_env e ''SMTP_USER'') (email p))"
    and "m_replyTo m = email p"
  using assms by (auto simp: compose_def Let_def split: sum.splits)

lemma contact_missing_body:
  "nullish b \<Longrightarrow> \<exists>msg. contact pf nm e b = (Inl (TypeError msg), [])"
  by (simp add: contact_def get_prop_def)

lemma valid_body_present:
  assumes "validatePayload (destructure b) = []"
  shows "\<not> nullish b"
proof
  assume "nullish b"
  then have "firstName (destructure b) = JUndefined"
    by (auto simp: nullish_def destructure_def js_or_def)
  moreover have "reqStr (firstName (destructure b))"
    using assms by (simp add: validatePayload_Nil_iff)
  ultimately show False
    by (simp add: reqStr_def)
qed

lemma contact_validate_event:
  assumes "ValidatePayload q \<in> set (snd (contact pf nm e b))"
  shows "\<not> nullish b \<and> \<not> honeypot (property b (ascii ''company'')) \<and> q = destructure b"
proof -
  have n: "\<not> nullish b"
    using assms by (auto simp: contact_def get_prop_def)
  have h: "\<not> honeypot (property b (ascii ''company''))"
    using assms by (auto simp: contact_honeypot)
  have "q = destructure b"
    using assms contact_events [of pf nm e b] dispatch_no_validate [of q pf nm e "destructure b"]
    by auto
  with n h show ?thesis by simp
qed

section \<open>The claims\<close>

text \<open>
  C1 (as amended). When any of \<open>firstName\<close>, \<open>lastName\<close>, \<open>email\<close>, \<open>phone\<close> or
  \<open>message\<close> is missing or blank after trimming, the validator's list holds the message of
  that field, so it is not empty; and when, in addition, the request has a body (\<open>req.body\<close>
  is neither \<open>undefined\<close> nor \<open>null\<close>) and the honeypot does not fire (the \<open>company\<close>
  field is not a string with a character other than white space), the route answers with
  status 400 and \<open>ok: false\<close>. What the route does without a body is not part of this
  statement.
\<close>

theorem missing_required_field_rejected:
  "(missing_or_blank (firstName p) \<longrightarrow> MSG_FIRST_NAME \<in> set (validatePayload p)) \<and>
   (missing_or_blank (lastName p) \<longrightarrow> MSG_LAST_NAME \<in> set (validatePayload p)) \<and>
   (missing_or_blank (email p) \<longrightarrow> MSG_EMAIL \<in> set (validatePayload p)) \<and>
   (missing_or_blank (phone p) \<longrightarrow> MSG_PHONE \<in> set (validatePayload p)) \<and>
   (missing_or_blank (message p) \<longrightarrow> MSG_MESSAGE \<in> set (validatePayload p)) \<and>
   ((missing_or_blank (firstName p) \<or> missing_or_blank (lastName p) \<or>
     missing_or_blank (email p) \<or> missing_or_blank (phone p) \<or>
     missing_or_blank (message p)) \<and>
    p = destructure b \<and> \<not> nullish b \<and> \<not> honeypot (property b (ascii ''company''))
    \<longrightarrow> validatePayload p \<noteq> [] \<and>
        (\<exists>r. fst (contact pf nm e b) = Inr r \<and> status r = 400 \<and>
             property (body r) (ascii ''ok'') = JBool False))"
proof -
  have ok: "property (body (rejected errs)) (ascii ''ok'') = JBool False" for errs
    by (simp add: rejected_def)
  have st: "status (rejected errs) = 400" for errs
    by (simp add: rejected_def)
  have a: "missing_or_blank (firstName p) \<longrightarrow> MSG_FIRST_NAME \<in> set (validatePayload p)"
    by (simp add: validatePayload_append missing_or_blank_not_reqStr)
  have b: "missing_or_blank (lastName p) \<longrightarrow> MSG_LAST_NAME \<in> set (validatePayload p)"
    by (simp add: validatePayload_append missing_or_blank_not_reqStr)
  have c: "missing_or_blank (email p) \<longrightarrow> MSG_EMAIL \<in> set (validatePayload p)"
    by (simp add: validatePayload_append missing_or_blank_not_reqStr)
  have d: "missing_or_blank (phone p) \<longrightarrow> MSG_PHONE \<in> set (validatePayload p)"
    by (simp add: validatePayload_append missing_or_blank_not_reqStr)
  have e: "missing_or_blank (message p) \<longrightarrow> MSG_MESSAGE \<in> set (validatePayload p)"
    by (simp add: validatePayload_append missing_or_blank_not_reqStr)
  have ne: "validatePayload p \<noteq> []"
    if "missing_or_blank (firstName p) \<or> missing_or_blank (lastName p) \<or>
        missing_or_blank (email p) \<or> missing_or_blank (phone p) \<or>
        missing_or_blank (message p)"
    using that a b c d e by (metis empty_iff list.set(1))
  have r: "\<exists>r. fst (contact pf nm e b) = Inr r \<and> status r = 400 \<and>
             property (body r) (ascii ''ok'') = JBool False"
    if "validatePayload (destructure b) \<noteq> []" "\<not> nullish b"
       "\<not> honeypot (property b (ascii ''company''))"
    using that by (simp add: contact_validated ok st)
  show ?thesis
    using a b c d e ne r by blast
qed

theorem missing_required_field_rejected_witness:
  "missing_or_blank (firstName (destructure no_first_name_body)) \<and>
   \<not> nullish no_first_name_body \<and>
   \<not> honeypot (property no_first_name_body (ascii ''company'')) \<and>
   MSG_FIRST_NAME \<in> set (validatePayload (destructure no_first_name_body)) \<and>
   (\<exists>r. fst (contact example_platform smtp_up empty_env no_first_name_body) = Inr r \<and>
        status r = 400 \<and> property (body r) (ascii ''ok'') = JBool False)"
proof -
  have h: "missing_or_blank (firstName (destructure no_first_name_body)) \<and>
      \<not> nullish no_first_name_body \<and>
      \<not> honeypot (property no_first_name_body (ascii ''company''))"
    by (simp add: no_first_name_body_def destructure_def js_or_def nullish_def honeypot_def
        ascii_def)
  show ?thesis
    using missing_required_field_rejected
      [of "destructure no_first_name_body" no_first_name_body example_platform smtp_up empty_env]
      h
    by simp
qed

theorem honeypot_before_validation_counterexample:
  "missing_or_blank (firstName (destructure bot_body)) \<and>
   MSG_FIRST_NAME \<in> set (validatePayload (destructure bot_body)) \<and>
   fst (contact example_platform smtp_up empty_env bot_body) =
     Inr (Response 200
           (JObj [(ascii ''ok'', JBool True), (ascii ''message'', JStr MSG_RECEIVED)]))"
  by (simp add: bot_body_def destructure_def js_or_def validatePayload_def reqStr_def
      contact_def get_prop_def nullish_def honeypot_def trim_def is_white_space_def
      acknowledged_def ascii_def)

text \<open>
  C2 (as amended). When the \<open>company\<close> field is a string with at least one character that
  is not white space, the route answers 200 with the acknowledgment message, and its trace
  is empty: the validator is not called and nothing of the mail library is.
\<close>

theorem honeypot_acknowledged:
  assumes "property b (ascii ''company'') = JStr s" and "trim s \<noteq> []"
  shows "contact pf nm e b =
           (Inr (Response 200
                  (JObj [(ascii ''ok'', JBool True), (ascii ''message'', JStr MSG_RECEIVED)])),
            [])"
proof -
  have "honeypot (property b (ascii ''company''))"
    using assms by (simp add: honeypot_iff)
  then show ?thesis
    by (simp add: contact_honeypot acknowledged_def)
qed

theorem honeypot_acknowledged_witness:
  "property bot_body (ascii ''company'') = JStr (ascii ''Acme'') \<and>
   trim (ascii ''Acme'') \<noteq> [] \<and>
   contact example_platform smtp_up empty_env bot_body =
     (Inr (Response 200
            (JObj [(ascii ''ok'', JBool True), (ascii ''message'', JStr MSG_RECEIVED)])),
      [])"
proof -
  have h: "property bot_body (ascii ''company'') = JStr (ascii ''Acme'')"
    by (simp add: bot_body_def)
  have t: "trim (ascii ''Acme'') \<noteq> []"
    by (simp add: trim_def is_white_space_def ascii_def)
  show ?thesis
    using honeypot_acknowledged [OF h t, of example_platform smtp_up empty_env] h t
    by simp
qed

theorem blank_honeypot_counterexample:
  "property blank_company_body (ascii ''company'') = JStr (ascii '' '') \<and>
   ascii '' '' \<noteq> [] \<and>
   contact example_platform smtp_up empty_env blank_company_body =
     (Inr (Response 400
            (JObj [(ascii ''ok'', JBool False), (ascii ''message'', JStr MSG_FIRST_NAME),
                   (ascii ''errors'',
                    JArr [JStr MSG_FIRST_NAME, JStr MSG_LAST_NAME, JStr MSG_EMAIL,
                          JStr MSG_PHONE, JStr MSG_MESSAGE])])),
      [ValidatePayload (destructure blank_company_body)])"
proof -
  have v: "validatePayload (destructure blank_company_body) =
     [MSG_FIRST_NAME, MSG_LAST_NAME, MSG_EMAIL, MSG_PHONE, MSG_MESSAGE]"
    by (simp add: blank_company_body_def destructure_def js_or_def validatePayload_def
        reqStr_def ascii_def)
  have h: "\<not> nullish blank_company_body"
    "\<not> honeypot (property blank_company_body (ascii ''company''))"
    by (simp_all add: blank_company_body_def nullish_def honeypot_def trim_def
        is_white_space_def ascii_def)
  have p: "property blank_company_body (ascii ''company'') = JStr (ascii '' '')"
    by (simp add: blank_company_body_def)
  show ?thesis
    by (simp add: contact_validated [OF h] v rejected_def p) (simp add: ascii_def)
qed

text \<open>
  C4 (as amended). With the five required fields valid: a truthy \<open>projectType\<close> outside the
  six-item enumeration gives exactly the invalid-project-type error; each of the six
  enumerated values, and every falsy \<open>projectType\<close> (absent, the empty string, \<open>null\<close>,
  \<open>false\<close>, zero), gives the empty error list.
\<close>

theorem projectType_validation:
  assumes "reqStr (firstName p)" and "reqStr (lastName p)" and "reqStr (email p)"
    and "reqStr (phone p)" and "reqStr (message p)"
  shows "(truthy (projectType p) \<and> projectType p \<notin> set ALLOWED_TYPES
            \<longrightarrow> validatePayload p = [MSG_PROJECT_TYPE]) \<and>
         (projectType p \<in> set ALLOWED_TYPES \<or> \<not> truthy (projectType p)
            \<longrightarrow> validatePayload p = [])"
  using assms by (auto simp: validatePayload_append has_ALLOWED_TYPES)

theorem projectType_validation_witness:
  "validatePayload (sara_payload\<lparr>projectType := JStr (ascii ''blog'')\<rparr>) = [MSG_PROJECT_TYPE] \<and>
   validatePayload sara_payload = [] \<and>
   validatePayload (sara_payload\<lparr>projectType := JStr []\<rparr>) = []"
  using projectType_validation [of "sara_payload\<lparr>projectType := JStr (ascii ''blog'')\<rparr>"]
    projectType_validation [of sara_payload]
    projectType_validation [of "sara_payload\<lparr>projectType := JStr []\<rparr>"]
  by (simp add: sara_payload_def reqStr_def trim_def is_white_space_def ascii_def ALLOWED_TYPES_def)

theorem projectType_false_counterexample:
  "destructure sara_false_type_body = sara_payload\<lparr>projectType := JBool False\<rparr> \<and>
   reqStr (firstName (destructure sara_false_type_body)) \<and>
   reqStr (lastName (destructure sara_false_type_body)) \<and>
   reqStr (email (destructure sara_false_type_body)) \<and>
   reqStr (phone (destructure sara_false_type_body)) \<and>
   reqStr (message (destructure sara_false_type_body)) \<and>
   JBool False \<notin> set ALLOWED_TYPES \<and>
   validatePayload (destructure sara_false_type_body) = [] \<and>
   fst (contact example_platform smtp_up empty_env sara_false_type_body) =
     Inr (Response 200
           (JObj [(ascii ''ok'', JBool True), (ascii ''message'', JStr MSG_SUCCESS)]))"
proof -
  have d: "destructure sara_false_type_body = sara_payload\<lparr>projectType := JBool False\<rparr>"
    by (simp add: sara_false_type_body_def sara_payload_def destructure_def js_or_def ascii_def)
  have r: "reqStr (JStr (ascii ''Sara''))" "reqStr (JStr (ascii ''Ali''))"
    "reqStr (JStr (ascii ''sara@example.com''))" "reqStr (JStr (ascii ''0500000000''))"
    "reqStr (JStr (ascii ''Hello''))"
    by (simp_all add: reqStr_def trim_def is_white_space_def ascii_def)
  have v: "validatePayload (sara_payload\<lparr>projectType := JBool False\<rparr>) = []"
    by (simp add: validatePayload_append sara_payload_def r)
  have b: "\<not> nullish sara_false_type_body"
    "\<not> honeypot (property sara_false_type_body (ascii ''company''))"
    by (simp_all add: sara_false_type_body_def nullish_def honeypot_def ascii_def)
  have g: "getTransporter example_platform smtp_up empty_env =
      (Inr (NetworkTransport ()),
       [CreateTransport (smtp_options example_platform empty_env), Verify (NetworkTransport ()),
        Console (SmtpReady (host (smtp_options example_platform empty_env))
                   (port (smtp_options example_platform empty_env)) (ascii ''(no-auth)''))])"
    by (simp add: getTransporter_def createTransport_smtp verify_def smtp_up_def Let_def
        empty_env_def)
  have c: "fst (dispatch example_platform smtp_up empty_env
                  (sara_payload\<lparr>projectType := JBool False\<rparr>)) = Inr ()"
    by (simp add: dispatch_def g compose_def substitutions_def sara_payload_def js_or_def)
       (simp add: sendMail_def smtp_up_def)
  have "fst (contact example_platform smtp_up empty_env sara_false_type_body) = Inr succeeded"
    using b v c by (auto simp: contact_validated d split: prod.splits sum.splits)
  then show ?thesis
    using d v r by (simp add: sara_payload_def succeeded_def ALLOWED_TYPES_def)
qed

text \<open>
  C10. A required field whose value is not a string (a number, a boolean, \<open>null\<close>, an
  array, an object) is treated as missing: the validator's list holds the message of that
  field, whatever the value.
\<close>

theorem non_string_required_field:
  "(typeof (firstName p) \<noteq> ''string'' \<longrightarrow> MSG_FIRST_NAME \<in> set (validatePayload p)) \<and>
   (typeof (lastName p) \<noteq> ''string'' \<longrightarrow> MSG_LAST_NAME \<in> set (validatePayload p)) \<and>
   (typeof (email p) \<noteq> ''string'' \<longrightarrow> MSG_EMAIL \<in> set (validatePayload p)) \<and>
   (typeof (phone p) \<noteq> ''string'' \<longrightarrow> MSG_PHONE \<in> set (validatePayload p)) \<and>
   (typeof (message p) \<noteq> ''string'' \<longrightarrow> MSG_MESSAGE \<in> set (validatePayload p))"
  by (simp add: validatePayload_append reqStr_def)

theorem non_string_required_field_witness:
  "typeof (lastName numeric_last_name) \<noteq> ''string'' \<and>
   truthy (lastName numeric_last_name) \<and>
   MSG_LAST_NAME \<in> set (validatePayload numeric_last_name)"
proof -
  have h: "typeof (lastName numeric_last_name) \<noteq> ''string''"
    by (simp add: numeric_last_name_def)
  have t: "truthy (lastName numeric_last_name)"
    by (simp add: numeric_last_name_def)
  show ?thesis
    using non_string_required_field [of numeric_last_name] h t by simp
qed

lemma sara_valid: "validatePayload (destructure sara_body) = []"
  by (simp add: sara_body_def destructure_def js_or_def validatePayload_def reqStr_def
      trim_def is_white_space_def ALLOWED_TYPES_def ascii_def)

lemma sara_body_plain:
  "\<not> nullish sara_body" "\<not> honeypot (property sara_body (ascii ''company''))"
  by (simp_all add: sara_body_def nullish_def honeypot_def ascii_def)

lemma sara_destructure: "destructure sara_body = sara_payload"
  by (simp add: sara_body_def sara_payload_def destructure_def js_or_def ascii_def)

text \<open>
  C3. For a valid submission, when the network transport is created and its verify step
  fails, transport resolution does not throw: it logs the failure and the fallback, and
  returns the transport created for \<open>{streamTransport: true, newline: "unix", buffer: true}\<close>,
  which is the discard transport. The route then answers 200 with \<open>ok: true\<close>; when the
  honeypot does not fire it is the success response, the composed message has been sent
  through the discard transport, and its buffered source has been written to the console.
\<close>

theorem verify_failure_falls_back:
  assumes valid: "validatePayload (destructure b) = []"
    and created: "network_transport nm (smtp_options pf e) = Inr t"
    and verify_fails: "network_verify nm t = Some err"
  shows "getTransporter pf nm e =
           (Inr (DiscardTransport (ascii ''unix'')),
            [CreateTransport (smtp_options pf e), Verify (NetworkTransport t),
             Console (SmtpVerifyFailed err), Console FallingBack,
             CreateTransport (StreamOptions True (ascii ''unix'') True)]) \<and>
         (\<exists>r. fst (contact pf nm e b) = Inr r \<and> status r = 200 \<and>
              property (body r) (ascii ''ok'') = JBool True) \<and>
         (\<not> honeypot (property b (ascii ''company''))
          \<longrightarrow> fst (contact pf nm e b) =
                Inr (Response 200
                      (JObj [(ascii ''ok'', JBool True), (ascii ''message'', JStr MSG_SUCCESS)])) \<and>
              (\<exists>m. compose pf e (destructure b) = Inr m \<and>
                   SendMail (DiscardTransport (ascii ''unix'')) m \<in> set (snd (contact pf nm e b)) \<and>
                   Console (MailConsole (message_source nm (ascii ''unix'') m))
                     \<in> set (snd (contact pf nm e b))))"
proof -
  have g: "getTransporter pf nm e =
           (Inr (DiscardTransport (ascii ''unix'')),
            [CreateTransport (smtp_options pf e), Verify (NetworkTransport t),
             Console (SmtpVerifyFailed err), Console FallingBack,
             CreateTransport (StreamOptions True (ascii ''unix'') True)])"
    using created verify_fails by (rule getTransporter_fallback)
  have present: "\<not> nullish b"
    using valid by (rule valid_body_present)
  obtain m where m: "compose pf e (destructure b) = Inr m"
    using compose_valid [OF valid] by blast
  have d: "dispatch pf nm e (destructure b) =
      (Inr (),
       [CreateTransport (smtp_options pf e), Verify (NetworkTransport t),
        Console (SmtpVerifyFailed err), Console FallingBack,
        CreateTransport (StreamOptions True (ascii ''unix'') True),
        SendMail (DiscardTransport (ascii ''unix'')) m,
        Console (MailConsole (message_source nm (ascii ''unix'') m))])"
    by (simp add: dispatch_def g m sendMail_def log_info_def)
  show ?thesis
  proof (cases "honeypot (property b (ascii ''company''))")
    case True
    then show ?thesis
      using g by (simp add: contact_honeypot acknowledged_def)
  next
    case False
    have c: "contact pf nm e b =
        (Inr succeeded, ValidatePayload (destructure b) # snd (dispatch pf nm e (destructure b)))"
      using valid by (simp add: contact_validated [OF present False] d)
    have "fst (contact pf nm e b) = Inr succeeded"
      by (simp add: c)
    moreover have "SendMail (DiscardTransport (ascii ''unix'')) m \<in> set (snd (contact pf nm e b))"
      "Console (MailConsole (message_source nm (ascii ''unix'') m)) \<in> set (snd (contact pf nm e b))"
      by (simp_all add: c d)
    ultimately show ?thesis
      using g False m by (auto simp: succeeded_def)
  qed
qed

theorem verify_failure_falls_back_witness:
  "validatePayload (destructure sara_body) = [] \<and>
   network_transport smtp_down (smtp_options example_platform empty_env) = Inr () \<and>
   network_verify smtp_down () = Some (ThrownError (ascii ''connect ECONNREFUSED'')) \<and>
   fst (getTransporter example_platform smtp_down empty_env) =
     Inr (DiscardTransport (ascii ''unix'')) \<and>
   fst (contact example_platform smtp_down empty_env sara_body) =
     Inr (Response 200
           (JObj [(ascii ''ok'', JBool True), (ascii ''message'', JStr MSG_SUCCESS)]))"
proof -
  have c: "network_transport smtp_down (smtp_options example_platform empty_env) = Inr ()"
    by (simp add: smtp_down_def)
  have v: "network_verify smtp_down () = Some (ThrownError (ascii ''connect ECONNREFUSED''))"
    by (simp add: smtp_down_def)
  show ?thesis
    using verify_failure_falls_back [OF sara_valid c v] sara_valid c v sara_body_plain(2)
    by simp
qed

text \<open>
  C5 (as amended). The validator returns the errors of all the rules that are broken, in
  the order of the rules: first name, last name, email, phone, message, project type;
  the project-type rule counts as broken only for a truthy \<open>projectType\<close> outside the
  enumeration. When the validator has been called in a request and its list is not empty,
  the response is 400, its \<open>message\<close> is the first error and its \<open>errors\<close> the whole
  list.
\<close>

theorem validatePayload_collects_all:
  "validatePayload p = applicable_errors p \<and>
   (ValidatePayload q \<in> set (snd (contact pf nm e b)) \<and> validatePayload q \<noteq> []
    \<longrightarrow> fst (contact pf nm e b) =
          Inr (Response 400
                (JObj [(ascii ''ok'', JBool False),
                       (ascii ''message'', JStr (hd (validatePayload q))),
                       (ascii ''errors'', JArr (map JStr (validatePayload q)))])))"
proof -
  have first: "validatePayload p = applicable_errors p"
    by (simp add: validatePayload_append applicable_errors_def amended_rules_def
        required_rules_def non_empty_after_trimming_iff member_of_enumeration_iff)
  have second: "fst (contact pf nm e b) =
          Inr (Response 400
                (JObj [(ascii ''ok'', JBool False),
                       (ascii ''message'', JStr (hd (validatePayload q))),
                       (ascii ''errors'', JArr (map JStr (validatePayload q)))]))"
    if called: "ValidatePayload q \<in> set (snd (contact pf nm e b))"
      and fails: "validatePayload q \<noteq> []"
  proof -
    from called have n: "\<not> nullish b" and h: "\<not> honeypot (property b (ascii ''company''))"
      and q: "q = destructure b"
      using contact_validate_event by blast+
    from fails obtain x xs where xs: "validatePayload q = x # xs"
      by (cases "validatePayload q") auto
    have "fst (contact pf nm e b) = Inr (rejected (validatePayload q))"
      using fails by (simp add: contact_validated [OF n h] q)
    then show ?thesis
      by (simp add: rejected_def xs)
  qed
  from first second show ?thesis
    by blast
qed

theorem validatePayload_collects_all_witness:
  "ValidatePayload (destructure blank_company_body)
     \<in> set (snd (contact example_platform smtp_up empty_env blank_company_body)) \<and>
   validatePayload (destructure blank_company_body) =
     [MSG_FIRST_NAME, MSG_LAST_NAME, MSG_EMAIL, MSG_PHONE, MSG_MESSAGE] \<and>
   applicable_errors (destructure blank_company_body) =
     [MSG_FIRST_NAME, MSG_LAST_NAME, MSG_EMAIL, MSG_PHONE, MSG_MESSAGE] \<and>
   fst (contact example_platform smtp_up empty_env blank_company_body) =
     Inr (Response 400
           (JObj [(ascii ''ok'', JBool False), (ascii ''message'', JStr MSG_FIRST_NAME),
                  (ascii ''errors'',
                   JArr [JStr MSG_FIRST_NAME, JStr MSG_LAST_NAME, JStr MSG_EMAIL,
                         JStr MSG_PHONE, JStr MSG_MESSAGE])]))"
proof -
  have v: "validatePayload (destructure blank_company_body) =
     [MSG_FIRST_NAME, MSG_LAST_NAME, MSG_EMAIL, MSG_PHONE, MSG_MESSAGE]"
    by (simp add: blank_company_body_def destructure_def js_or_def validatePayload_def
        reqStr_def ascii_def)
  have h: "\<not> nullish blank_company_body"
    "\<not> honeypot (property blank_company_body (ascii ''company''))"
    by (simp_all add: blank_company_body_def nullish_def honeypot_def trim_def
        is_white_space_def ascii_def)
  have t: "ValidatePayload (destructure blank_company_body)
     \<in> set (snd (contact example_platform smtp_up empty_env blank_company_body))"
    by (simp add: contact_validated [OF h] v)
  show ?thesis
    using validatePayload_collects_all
      [of "destructure blank_company_body" "destructure blank_company_body"
          example_platform smtp_up empty_env blank_company_body]
      t
    by (simp add: v)
qed

theorem unreported_project_type_counterexample:
  "spec_errors (destructure no_first_name_false_type_body) =
     [MSG_FIRST_NAME, MSG_PROJECT_TYPE] \<and>
   validatePayload (destructure no_first_name_false_type_body) = [MSG_FIRST_NAME] \<and>
   fst (contact example_platform smtp_up empty_env no_first_name_false_type_body) =
     Inr (Response 400
           (JObj [(ascii ''ok'', JBool False), (ascii ''message'', JStr MSG_FIRST_NAME),
                  (ascii ''errors'', JArr [JStr MSG_FIRST_NAME])]))"
proof -
  have d: "destructure no_first_name_false_type_body =
      \<lparr>firstName = JUndefined, lastName = JStr (ascii ''Ali''),
       email = JStr (ascii ''sara@example.com''), phone = JStr (ascii ''0500000000''),
       projectType = JBool False, message = JStr (ascii ''Hello'')\<rparr>"
    by (simp add: no_first_name_false_type_body_def destructure_def js_or_def ascii_def)
  have s: "spec_errors (destructure no_first_name_false_type_body) =
     [MSG_FIRST_NAME, MSG_PROJECT_TYPE]"
    unfolding d
    by (simp add: spec_errors_def spec_rules_def required_rules_def
        present_and_non_empty_def nullish_def member_of_enumeration_def CATEGORIES_def
        is_white_space_def ascii_def)
  have v: "validatePayload (destructure no_first_name_false_type_body) = [MSG_FIRST_NAME]"
    unfolding d
    by (simp add: validatePayload_def reqStr_def trim_def is_white_space_def ascii_def)
  have h: "\<not> nullish no_first_name_false_type_body"
    "\<not> honeypot (property no_first_name_false_type_body (ascii ''company''))"
    by (simp_all add: no_first_name_false_type_body_def nullish_def honeypot_def ascii_def)
  show ?thesis
    by (simp add: s v contact_validated [OF h] rejected_def)
qed

section \<open>Properties of the validator on a store\<close>

lemma push_last:
  "push (length as) x (s\<lparr>arrays := as @ [l]\<rparr>) = s\<lparr>arrays := as @ [l @ [x]]\<rparr>"
  by (simp add: push_def)

lemma push_if_last:
  "(if c then push (length as) x (s\<lparr>arrays := as @ [l]\<rparr>) else s\<lparr>arrays := as @ [l]\<rparr>) =
     s\<lparr>arrays := as @ [l @ (if c then [x] else [])]\<rparr>"
  by (simp add: push_last)

lemma validatePayload_run_eq:
  "validatePayload_run p s =
     (length (arrays s), s\<lparr>arrays := arrays s @ [validatePayload p]\<rparr>)"
  unfolding validatePayload_run_def new_array_def Let_def prod.case push_if_last
    validatePayload_append
  by simp

text \<open>
  C9. Whatever the store it starts from, an evaluation of the validator allocates one new
  array and changes nothing else: the arrays that existed are as they were and no call to
  the outside is made. The list left in the new array is \<open>validatePayload p\<close>, a function
  of the record alone; so a second evaluation on the same record, started from the store
  the first one left, yields another array with the same list.
\<close>

theorem validatePayload_deterministic:
  "validatePayload_run p s =
     (length (arrays s), s\<lparr>arrays := arrays s @ [validatePayload p]\<rparr>) \<and>
   validatePayload_run p (snd (validatePayload_run p s)) =
     (Suc (length (arrays s)),
      s\<lparr>arrays := arrays s @ [validatePayload p, validatePayload p]\<rparr>) \<and>
   calls (snd (validatePayload_run p (snd (validatePayload_run p s)))) = calls s \<and>
   arrays (snd (validatePayload_run p s)) ! fst (validatePayload_run p s) =
   arrays (snd (validatePayload_run p (snd (validatePayload_run p s)))) !
     fst (validatePayload_run p (snd (validatePayload_run p s)))"
  by (simp add: validatePayload_run_eq nth_append)

lemma example_run:
  "validatePayload_run numeric_last_name example_store =
     (1, \<lparr>arrays = [[MSG_EMAIL], [MSG_LAST_NAME]], calls = [Console FallingBack]\<rparr>)"
  by (simp add: validatePayload_run_def new_array_def push_def example_store_def
      numeric_last_name_def sara_payload_def reqStr_def trim_def is_white_space_def
      ALLOWED_TYPES_def ascii_def)

lemma compose_text:
  assumes "validatePayload p = []" and "compose pf e p = Inr m"
  shows "\<exists>f l em ph pt msg.
           firstName p = JStr f \<and> lastName p = JStr l \<and> email p = JStr em \<and>
           phone p = JStr ph \<and> js_or (projectType p) (JStr (ascii ''-'')) = JStr pt \<and>
           message p = JStr msg \<and> m_text m = text_body [f, l, em, ph, pt, msg]"
  using substitutions_valid [OF assms(1), of pf] assms(2)
  by (auto simp: compose_def Let_def)

lemma sara_text_lines:
  "split_lines (text_body [ascii ''Sara'', ascii ''Ali'', ascii ''sara@example.com'',
                            ascii ''0500000000'', ascii ''landing'', ascii ''Hello'']) =
     [[0x627, 0x644, 0x627, 0x633, 0x645, 0x3A, 0x20] @ ascii ''Sara Ali'',
      [0x627, 0x644, 0x628, 0x631, 0x64A, 0x62F, 0x3A, 0x20] @ ascii ''sara@example.com'',
      [0x627, 0x644, 0x647, 0x627, 0x62A, 0x641, 0x3A, 0x20] @ ascii ''0500000000'',
      [0x646, 0x648, 0x639, 0x20, 0x627, 0x644, 0x645, 0x634, 0x631, 0x648, 0x639, 0x3A, 0x20] @
        ascii ''landing'',
      ascii ''---'',
      ascii ''Hello'']"
  by (simp add: text_body_def LABEL_NAME_def LABEL_EMAIL_def LABEL_PHONE_def
      LABEL_PROJECT_TYPE_def NL_def ascii_def)

text \<open>
  C6. For the submission of Sara Ali the plain-text body is composed, in any environment,
  and its lines are, in this order: the name line, the email line, the phone line, the
  project-type line with \<open>landing\<close>, a line of three dashes, and the message text
  \<open>Hello\<close>; every message the route hands to \<open>sendMail\<close> for that submission has this
  body. For a valid submission whose \<open>projectType\<close> is absent or the empty string, the
  project-type line holds a dash in place of the value.
\<close>

theorem text_body_of_submission:
  "(\<exists>m. compose pf e (destructure sara_body) = Inr m \<and>
        split_lines (m_text m) =
          [[0x627, 0x644, 0x627, 0x633, 0x645, 0x3A, 0x20] @ ascii ''Sara Ali'',
           [0x627, 0x644, 0x628, 0x631, 0x64A, 0x62F, 0x3A, 0x20] @ ascii ''sara@example.com'',
           [0x627, 0x644, 0x647, 0x627, 0x62A, 0x641, 0x3A, 0x20] @ ascii ''0500000000'',
           [0x646, 0x648, 0x639, 0x20, 0x627, 0x644, 0x645, 0x634, 0x631, 0x648, 0x639,
            0x3A, 0x20] @ ascii ''landing'',
           ascii ''---'',
           ascii ''Hello'']) \<and>
   (SendMail t sent \<in> set (snd (contact pf nm e sara_body))
    \<longrightarrow> split_lines (m_text sent) =
          [[0x627, 0x644, 0x627, 0x633, 0x645, 0x3A, 0x20] @ ascii ''Sara Ali'',
           [0x627, 0x644, 0x628, 0x631, 0x64A, 0x62F, 0x3A, 0x20] @ ascii ''sara@example.com'',
           [0x627, 0x644, 0x647, 0x627, 0x62A, 0x641, 0x3A, 0x20] @ ascii ''0500000000'',
           [0x646, 0x648, 0x639, 0x20, 0x627, 0x644, 0x645, 0x634, 0x631, 0x648, 0x639,
            0x3A, 0x20] @ ascii ''landing'',
           ascii ''---'',
           ascii ''Hello'']) \<and>
   ((property b (ascii ''projectType'') = JUndefined \<or>
     property b (ascii ''projectType'') = JStr []) \<and>
    validatePayload (destructure b) = [] \<and> compose pf e (destructure b) = Inr m'
    \<longrightarrow> (\<exists>f l em ph msg.
          destructure b =
            \<lparr>firstName = JStr f, lastName = JStr l, email = JStr em, phone = JStr ph,
             projectType = JStr [], message = JStr msg\<rparr> \<and>
          m_text m' =
            [0x627, 0x644, 0x627, 0x633, 0x645, 0x3A, 0x20] @ f @ [0x20] @ l @ [0xA] @
            [0x627, 0x644, 0x628, 0x631, 0x64A, 0x62F, 0x3A, 0x20] @ em @ [0xA] @
            [0x627, 0x644, 0x647, 0x627, 0x62A, 0x641, 0x3A, 0x20] @ ph @ [0xA] @
            [0x646, 0x648, 0x639, 0x20, 0x627, 0x644, 0x645, 0x634, 0x631, 0x648, 0x639,
             0x3A, 0x20] @ ascii ''-'' @ [0xA] @
            ascii ''---'' @ [0xA] @ msg))"
proof -
  have lines: "split_lines (m_text m) =
          [[0x627, 0x644, 0x627, 0x633, 0x645, 0x3A, 0x20] @ ascii ''Sara Ali'',
           [0x627, 0x644, 0x628, 0x631, 0x64A, 0x62F, 0x3A, 0x20] @ ascii ''sara@example.com'',
           [0x627, 0x644, 0x647, 0x627, 0x62A, 0x641, 0x3A, 0x20] @ ascii ''0500000000'',
           [0x646, 0x648, 0x639, 0x20, 0x627, 0x644, 0x645, 0x634, 0x631, 0x648, 0x639,
            0x3A, 0x20] @ ascii ''landing'',
           ascii ''---'',
           ascii ''Hello'']"
    if "compose pf e (destructure sara_body) = Inr m" for m
  proof -
    have "m_text m = text_body [ascii ''Sara'', ascii ''Ali'', ascii ''sara@example.com'',
                            ascii ''0500000000'', ascii ''landing'', ascii ''Hello'']"
      using compose_text [OF sara_valid that]
      by (simp add: sara_destructure sara_payload_def js_or_def) (simp add: ascii_def)
    then show ?thesis
      using sara_text_lines by simp
  qed
  have first: "\<exists>m. compose pf e (destructure sara_body) = Inr m \<and>
        split_lines (m_text m) =
          [[0x627, 0x644, 0x627, 0x633, 0x645, 0x3A, 0x20] @ ascii ''Sara Ali'',
           [0x627, 0x644, 0x628, 0x631, 0x64A, 0x62F, 0x3A, 0x20] @ ascii ''sara@example.com'',
           [0x627, 0x644, 0x647, 0x627, 0x62A, 0x641, 0x3A, 0x20] @ ascii ''0500000000'',
           [0x646, 0x648, 0x639, 0x20, 0x627, 0x644, 0x645, 0x634, 0x631, 0x648, 0x639,
            0x3A, 0x20] @ ascii ''landing'',
           ascii ''---'',
           ascii ''Hello'']"
    using compose_valid [OF sara_valid, of pf e] lines by blast
  have second: "split_lines (m_text sent) =
          [[0x627, 0x644, 0x627, 0x633, 0x645, 0x3A, 0x20] @ ascii ''Sara Ali'',
           [0x627, 0x644, 0x628, 0x631, 0x64A, 0x62F, 0x3A, 0x20] @ ascii ''sara@example.com'',
           [0x627, 0x644, 0x647, 0x627, 0x62A, 0x641, 0x3A, 0x20] @ ascii ''0500000000'',
           [0x646, 0x648, 0x639, 0x20, 0x627, 0x644, 0x645, 0x634, 0x631, 0x648, 0x639,
            0x3A, 0x20] @ ascii ''landing'',
           ascii ''---'',
           ascii ''Hello'']"
    if "SendMail t sent \<in> set (snd (contact pf nm e sara_body))"
  proof -
    have "SendMail t sent \<in> set (snd (dispatch pf nm e (destructure sara_body)))"
      using that contact_events [of pf nm e sara_body] by auto
    then have "compose pf e (destructure sara_body) = Inr sent"
      by (simp add: dispatch_send)
    then show ?thesis by (rule lines)
  qed
  have third: "\<exists>f l em ph msg.
          destructure b =
            \<lparr>firstName = JStr f, lastName = JStr l, email = JStr em, phone = JStr ph,
             projectType = JStr [], message = JStr msg\<rparr> \<and>
          m_text m' =
            [0x627, 0x644, 0x627, 0x633, 0x645, 0x3A, 0x20] @ f @ [0x20] @ l @ [0xA] @
            [0x627, 0x644, 0x628, 0x631, 0x64A, 0x62F, 0x3A, 0x20] @ em @ [0xA] @
            [0x627, 0x644, 0x647, 0x627, 0x62A, 0x641, 0x3A, 0x20] @ ph @ [0xA] @
            [0x646, 0x648, 0x639, 0x20, 0x627, 0x644, 0x645, 0x634, 0x631, 0x648, 0x639,
             0x3A, 0x20] @ ascii ''-'' @ [0xA] @
            ascii ''---'' @ [0xA] @ msg"
    if absent: "property b (ascii ''projectType'') = JUndefined \<or>
        property b (ascii ''projectType'') = JStr []"
      and valid: "validatePayload (destructure b) = []"
      and composed: "compose pf e (destructure b) = Inr m'"
  proof -
    have "reqStr (firstName (destructure b))"
      using valid by (simp add: validatePayload_Nil_iff)
    then have "truthy b"
      by (cases "truthy b") (simp_all add: destructure_def js_or_def reqStr_def)
    with absent have pt: "projectType (destructure b) = JStr []"
      by (auto simp: destructure_def js_or_def)
    obtain f l em ph d msg where
      s: "firstName (destructure b) = JStr f" "lastName (destructure b) = JStr l"
         "email (destructure b) = JStr em" "phone (destructure b) = JStr ph"
         "js_or (projectType (destructure b)) (JStr (ascii ''-'')) = JStr d"
         "message (destructure b) = JStr msg"
         "m_text m' = text_body [f, l, em, ph, d, msg]"
      using compose_text [OF valid composed] by blast
    from s(5) pt have d: "d = ascii ''-''"
      by (simp add: js_or_def)
    have rec: "destructure b =
            \<lparr>firstName = JStr f, lastName = JStr l, email = JStr em, phone = JStr ph,
             projectType = JStr [], message = JStr msg\<rparr>"
      using s(1-4,6) pt by (cases "destructure b") simp
    have "m_text m' =
            [0x627, 0x644, 0x627, 0x633, 0x645, 0x3A, 0x20] @ f @ [0x20] @ l @ [0xA] @
            [0x627, 0x644, 0x628, 0x631, 0x64A, 0x62F, 0x3A, 0x20] @ em @ [0xA] @
            [0x627, 0x644, 0x647, 0x627, 0x62A, 0x641, 0x3A, 0x20] @ ph @ [0xA] @
            [0x646, 0x648, 0x639, 0x20, 0x627, 0x644, 0x645, 0x634, 0x631, 0x648, 0x639,
             0x3A, 0x20] @ ascii ''-'' @ [0xA] @
            ascii ''---'' @ [0xA] @ msg"
      unfolding s(7) d
      by (simp add: text_body_def LABEL_NAME_def LABEL_EMAIL_def LABEL_PHONE_def
          LABEL_PROJECT_TYPE_def NL_def ascii_def)
    with rec show ?thesis by blast
  qed
  show ?thesis
    using first second third by blast
qed

theorem text_body_of_submission_witness:
  "property sara_untyped_body (ascii ''projectType'') = JUndefined \<and>
   validatePayload (destructure sara_untyped_body) = [] \<and>
   (\<exists>m. compose example_platform empty_env (destructure sara_untyped_body) = Inr m \<and>
        split_lines (m_text m) =
          [[0x627, 0x644, 0x627, 0x633, 0x645, 0x3A, 0x20] @ ascii ''Sara Ali'',
           [0x627, 0x644, 0x628, 0x631, 0x64A, 0x62F, 0x3A, 0x20] @ ascii ''sara@example.com'',
           [0x627, 0x644, 0x647, 0x627, 0x62A, 0x641, 0x3A, 0x20] @ ascii ''0500000000'',
           [0x646, 0x648, 0x639, 0x20, 0x627, 0x644, 0x645, 0x634, 0x631, 0x648, 0x639,
            0x3A, 0x20] @ ascii ''-'',
           ascii ''---'',
           ascii ''Hello'']) \<and>
   (\<exists>sent. SendMail (DiscardTransport (ascii ''unix'')) sent
             \<in> set (snd (contact example_platform smtp_down empty_env sara_body)) \<and>
           split_lines (m_text sent) =
             [[0x627, 0x644, 0x627, 0x633, 0x645, 0x3A, 0x20] @ ascii ''Sara Ali'',
              [0x627, 0x644, 0x628, 0x631, 0x64A, 0x62F, 0x3A, 0x20] @ ascii ''sara@example.com'',
              [0x627, 0x644, 0x647, 0x627, 0x62A, 0x641, 0x3A, 0x20] @ ascii ''0500000000'',
              [0x646, 0x648, 0x639, 0x20, 0x627, 0x644, 0x645, 0x634, 0x631, 0x648, 0x639,
               0x3A, 0x20] @ ascii ''landing'',
              ascii ''---'',
              ascii ''Hello''])"
proof -
  have p: "property sara_untyped_body (ascii ''projectType'') = JUndefined"
    by (simp add: sara_untyped_body_def ascii_def)
  have d: "destructure sara_untyped_body = sara_payload\<lparr>projectType := JStr []\<rparr>"
    by (simp add: sara_untyped_body_def sara_payload_def destructure_def js_or_def ascii_def)
  have v: "validatePayload (destructure sara_untyped_body) = []"
    unfolding d
    by (simp add: sara_payload_def validatePayload_def reqStr_def trim_def is_white_space_def
        ascii_def)
  obtain m where m: "compose example_platform empty_env (destructure sara_untyped_body) = Inr m"
    using compose_valid [OF v] by blast
  have "\<exists>f l em ph msg.
          destructure sara_untyped_body =
            \<lparr>firstName = JStr f, lastName = JStr l, email = JStr em, phone = JStr ph,
             projectType = JStr [], message = JStr msg\<rparr> \<and>
          m_text m =
            [0x627, 0x644, 0x627, 0x633, 0x645, 0x3A, 0x20] @ f @ [0x20] @ l @ [0xA] @
            [0x627, 0x644, 0x628, 0x631, 0x64A, 0x62F, 0x3A, 0x20] @ em @ [0xA] @
            [0x627, 0x644, 0x647, 0x627, 0x62A, 0x641, 0x3A, 0x20] @ ph @ [0xA] @
            [0x646, 0x648, 0x639, 0x20, 0x627, 0x644, 0x645, 0x634, 0x631, 0x648, 0x639,
             0x3A, 0x20] @ ascii ''-'' @ [0xA] @
            ascii ''---'' @ [0xA] @ msg"
    using text_body_of_submission
      [where pf = example_platform and e = empty_env and b = sara_untyped_body and m' = m
         and nm = smtp_down and t = "DiscardTransport (ascii ''unix'')" and sent = m]
      p v m
    by blast
  then have t: "m_text m =
            [0x627, 0x644, 0x627, 0x633, 0x645, 0x3A, 0x20] @ ascii ''Sara'' @ [0x20] @
            ascii ''Ali'' @ [0xA] @
            [0x627, 0x644, 0x628, 0x631, 0x64A, 0x62F, 0x3A, 0x20] @ ascii ''sara@example.com'' @
            [0xA] @
            [0x627, 0x644, 0x647, 0x627, 0x62A, 0x641, 0x3A, 0x20] @ ascii ''0500000000'' @ [0xA] @
            [0x646, 0x648, 0x639, 0x20, 0x627, 0x644, 0x645, 0x634, 0x631, 0x648, 0x639,
             0x3A, 0x20] @ ascii ''-'' @ [0xA] @
            ascii ''---'' @ [0xA] @ ascii ''Hello''"
    unfolding d by (auto simp: sara_payload_def)
  have l: "split_lines (m_text m) =
          [[0x627, 0x644, 0x627, 0x633, 0x645, 0x3A, 0x20] @ ascii ''Sara Ali'',
           [0x627, 0x644, 0x628, 0x631, 0x64A, 0x62F, 0x3A, 0x20] @ ascii ''sara@example.com'',
           [0x627, 0x644, 0x647, 0x627, 0x62A, 0x641, 0x3A, 0x20] @ ascii ''0500000000'',
           [0x646, 0x648, 0x639, 0x20, 0x627, 0x644, 0x645, 0x634, 0x631, 0x648, 0x639,
            0x3A, 0x20] @ ascii ''-'',
           ascii ''---'',
           ascii ''Hello'']"
    unfolding t by (simp add: ascii_def)
  have g: "getTransporter example_platform smtp_down empty_env =
      (Inr (DiscardTransport (ascii ''unix'')),
       [CreateTransport (smtp_options example_platform empty_env), Verify (NetworkTransport ()),
        Console (SmtpVerifyFailed (ThrownError (ascii ''connect ECONNREFUSED''))),
        Console FallingBack, CreateTransport (StreamOptions True (ascii ''unix'') True)])"
    by (rule getTransporter_fallback) (simp_all add: smtp_down_def)
  obtain sent where sent: "compose example_platform empty_env (destructure sara_body) = Inr sent"
    using compose_valid [OF sara_valid] by blast
  have "SendMail (DiscardTransport (ascii ''unix'')) sent
      \<in> set (snd (dispatch example_platform smtp_down empty_env (destructure sara_body)))"
    using g sent by (simp add: dispatch_def sendMail_def)
  then have s: "SendMail (DiscardTransport (ascii ''unix'')) sent
      \<in> set (snd (contact example_platform smtp_down empty_env sara_body))"
    using contact_dispatched(3) [OF sara_body_plain sara_valid] by blast
  have "split_lines (m_text sent) =
             [[0x627, 0x644, 0x627, 0x633, 0x645, 0x3A, 0x20] @ ascii ''Sara Ali'',
              [0x627, 0x644, 0x628, 0x631, 0x64A, 0x62F, 0x3A, 0x20] @ ascii ''sara@example.com'',
              [0x627, 0x644, 0x647, 0x627, 0x62A, 0x641, 0x3A, 0x20] @ ascii ''0500000000'',
              [0x646, 0x648, 0x639, 0x20, 0x627, 0x644, 0x645, 0x634, 0x631, 0x648, 0x639,
               0x3A, 0x20] @ ascii ''landing'',
              ascii ''---'',
              ascii ''Hello'']"
    using text_body_of_submission
      [where pf = example_platform and e = empty_env and nm = smtp_down
         and t = "DiscardTransport (ascii ''unix'')" and sent = sent
         and b = sara_untyped_body and m' = m]
      s
    by blast
  with s p v m l show ?thesis by blast
qed

text \<open>
  What the \<open>catch\<close> block covers. For a valid submission on which the honeypot does not
  fire: when transport resolution throws, or when \<open>sendMail\<close> throws, the route answers
  with status 500 and the body \<open>ok: false\<close> with one fixed message, the same for every
  thrown error. And a response of the route is one of four that depend on the body alone:
  the acknowledgment, the rejection with the validator's errors, the success or that
  failure.
\<close>

lemma dispatch_failure_generic:
  "(\<not> nullish b \<and> \<not> honeypot (property b (ascii ''company'')) \<and>
    validatePayload (destructure b) = [] \<and>
    (fst (getTransporter pf nm e) = Inl err \<or>
     (\<exists>t m. fst (getTransporter pf nm e) = Inr t \<and> compose pf e (destructure b) = Inr m \<and>
            sendMail nm t m = Inl err))
    \<longrightarrow> fst (contact pf nm e b) =
          Inr (Response 500
                (JObj [(ascii ''ok'', JBool False), (ascii ''message'', JStr MSG_SEND_FAILED)]))) \<and>
   (fst (contact pf nm e b) = Inr r
    \<longrightarrow> r = acknowledged \<or> r = rejected (validatePayload (destructure b)) \<or>
        r = succeeded \<or> r = failed)"
proof -
  have one: "fst (contact pf nm e b) = Inr failed"
    if "\<not> nullish b" "\<not> honeypot (property b (ascii ''company''))"
      "validatePayload (destructure b) = []"
      "fst (getTransporter pf nm e) = Inl err \<or>
       (\<exists>t m. fst (getTransporter pf nm e) = Inr t \<and> compose pf e (destructure b) = Inr m \<and>
              sendMail nm t m = Inl err)"
  proof -
    from that(4) have "\<exists>err. fst (dispatch pf nm e (destructure b)) = Inl err"
      unfolding dispatch_fails_iff by blast
    then show ?thesis
      using contact_dispatched(1) [OF that(1-3), of pf nm e] by auto
  qed
  have two: "r = acknowledged \<or> r = rejected (validatePayload (destructure b)) \<or>
        r = succeeded \<or> r = failed"
    if "fst (contact pf nm e b) = Inr r"
  proof (cases "nullish b")
    case True
    with that show ?thesis by (simp add: contact_def get_prop_def)
  next
    case False
    show ?thesis
    proof (cases "honeypot (property b (ascii ''company''))")
      case True
      with that show ?thesis by (simp add: contact_honeypot)
    next
      case False
      with that \<open>\<not> nullish b\<close> show ?thesis
        by (cases "dispatch pf nm e (destructure b)")
           (auto simp: contact_validated split: if_splits sum.splits)
    qed
  qed
  show ?thesis
    using one two by (simp add: failed_def)
qed

lemma dispatch_failure_generic_example:
  "\<not> nullish sara_body \<and> \<not> honeypot (property sara_body (ascii ''company'')) \<and>
   validatePayload (destructure sara_body) = [] \<and>
   fst (getTransporter example_platform send_rejected empty_env) = Inr (NetworkTransport ()) \<and>
   (\<exists>m. compose example_platform empty_env (destructure sara_body) = Inr m \<and>
        sendMail send_rejected (NetworkTransport ()) m =
          Inl (ThrownError (ascii ''550 mailbox unavailable''))) \<and>
   fst (contact example_platform send_rejected empty_env sara_body) =
     Inr (Response 500
           (JObj [(ascii ''ok'', JBool False), (ascii ''message'', JStr MSG_SEND_FAILED)]))"
proof -
  have g: "fst (getTransporter example_platform send_rejected empty_env) =
      Inr (NetworkTransport ())"
    by (simp add: getTransporter_verified send_rejected_def)
  obtain m where m: "compose example_platform empty_env (destructure sara_body) = Inr m"
    using compose_valid [OF sara_valid] by blast
  have s: "sendMail send_rejected (NetworkTransport ()) m =
      Inl (ThrownError (ascii ''550 mailbox unavailable''))"
    by (simp add: sendMail_def send_rejected_def)
  show ?thesis
    using dispatch_failure_generic
      [of sara_body example_platform send_rejected empty_env
          "ThrownError (ascii ''550 mailbox unavailable'')"
          "Response 500
            (JObj [(ascii ''ok'', JBool False), (ascii ''message'', JStr MSG_SEND_FAILED)])"]
      sara_body_plain sara_valid g m s
    by auto
qed

lemma present_body_answered:
  assumes "\<not> nullish b"
  shows "\<exists>r. fst (contact pf nm e b) = Inr r \<and>
             (r = acknowledged \<or> r = rejected (validatePayload (destructure b)) \<or>
              r = succeeded \<or> r = failed)"
proof (cases "honeypot (property b (ascii ''company''))")
  case True
  then show ?thesis by (simp add: contact_honeypot)
next
  case False
  with assms show ?thesis
    by (cases "dispatch pf nm e (destructure b)")
       (auto simp: contact_validated split: sum.splits)
qed

text \<open>
  C7. A request without a body is not answered with the generic failure. When
  \<open>req.body\<close> is \<open>undefined\<close> or
  \<open>null\<close>, the read of \<open>req.body.company\<close> at the head of the handler throws a TypeError
  before the \<open>try\<close> block is entered: the \<open>catch\<close> does not run, the route sends neither
  the generic 500 nor any other response, and the exception leaves the handler with its
  message. Nothing has been validated, sent or logged.
\<close>

theorem missing_body_escapes_handler:
  "contact pf nm e JUndefined =
     (Inl (TypeError
            (ascii ''Cannot read properties of undefined (reading '' @ [0x27] @
             ascii ''company'' @ [0x27] @ ascii '')'')),
      []) \<and>
   contact pf nm e JNull =
     (Inl (TypeError
            (ascii ''Cannot read properties of null (reading '' @ [0x27] @
             ascii ''company'' @ [0x27] @ ascii '')'')),
      [])"
  by (simp add: contact_def get_prop_def nullish_def) (simp add: ascii_def)

text \<open>
  C8. Every message handed to \<open>sendMail\<close> has as sender \<open>MAIL_FROM\<close> if that is set, else
  \<open>SMTP_USER\<close> if that is set, else \<open>no-reply@example.com\<close>; as recipient \<open>MAIL_TO\<close> if
  set, else \<open>SMTP_USER\<close> if set, else the submitter's email; and as reply-to the
  submitter's email. A variable counts as set when it is defined and not empty.
\<close>

theorem mail_addresses:
  assumes "SendMail t m \<in> set (snd (contact pf nm e b))"
  shows "m_from m =
           (if env_set e ''MAIL_FROM'' then process_env e ''MAIL_FROM''
            else if env_set e ''SMTP_USER'' then process_env e ''SMTP_USER''
            else JStr (ascii ''no-reply@example.com'')) \<and>
         m_to m =
           (if env_set e ''MAIL_TO'' then process_env e ''MAIL_TO''
            else if env_set e ''SMTP_USER'' then process_env e ''SMTP_USER''
            else property b (ascii ''email'')) \<and>
         m_replyTo m = property b (ascii ''email'')"
proof -
  have "SendMail t m \<in> set (snd (dispatch pf nm e (destructure b)))"
    using assms contact_events [of pf nm e b] by auto
  then have c: "compose pf e (destructure b) = Inr m"
    by (simp add: dispatch_send)
  have ne: "\<not> nullish b"
    using assms by (auto simp: contact_def get_prop_def)
  then have "truthy b \<or> property b (ascii ''email'') = JUndefined"
    by (cases b) (simp_all add: nullish_def)
  then have em: "email (destructure b) = property b (ascii ''email'')"
    by (auto simp: destructure_def js_or_def)
  show ?thesis
    using compose_addresses [OF c] by (simp add: process_env_or em)
qed

theorem mail_addresses_witness:
  "SendMail (NetworkTransport ())
     \<lparr>m_from = JStr (ascii ''owner@example.com''), m_to = JStr (ascii ''owner@example.com''),
      m_replyTo = JStr (ascii ''sara@example.com''), m_subject = SUBJECT,
      m_text = text_body [ascii ''Sara'', ascii ''Ali'', ascii ''sara@example.com'',
                           ascii ''0500000000'', ascii ''landing'', ascii ''Hello''],
      m_html = html_body [ascii ''Sara'', ascii ''Ali'', ascii ''sara@example.com'',
                           ascii ''0500000000'', ascii ''landing'', ascii ''Hello'']\<rparr>
     \<in> set (snd (contact example_platform smtp_up smtp_user_env sara_body)) \<and>
   \<not> env_set smtp_user_env ''MAIL_FROM'' \<and> \<not> env_set smtp_user_env ''MAIL_TO'' \<and>
   env_set smtp_user_env ''SMTP_USER'' \<and>
   process_env smtp_user_env ''SMTP_USER'' = JStr (ascii ''owner@example.com'') \<and>
   property sara_body (ascii ''email'') = JStr (ascii ''sara@example.com'')"
proof -
  have d: "destructure sara_body = sara_payload"
    by (simp add: sara_body_def sara_payload_def destructure_def js_or_def ascii_def)
  have g: "getTransporter example_platform smtp_up smtp_user_env =
      (Inr (NetworkTransport ()),
       [CreateTransport (smtp_options example_platform smtp_user_env),
        Verify (NetworkTransport ()),
        Console (SmtpReady (host (smtp_options example_platform smtp_user_env))
                   (port (smtp_options example_platform smtp_user_env))
                   (mask_user (ascii ''owner@example.com'')))])"
    by (simp add: getTransporter_def createTransport_smtp verify_def smtp_up_def Let_def
        smtp_user_env_def ascii_def)
  have c: "compose example_platform smtp_user_env sara_payload =
      Inr \<lparr>m_from = JStr (ascii ''owner@example.com''), m_to = JStr (ascii ''owner@example.com''),
      m_replyTo = JStr (ascii ''sara@example.com''), m_subject = SUBJECT,
      m_text = text_body [ascii ''Sara'', ascii ''Ali'', ascii ''sara@example.com'',
                           ascii ''0500000000'', ascii ''landing'', ascii ''Hello''],
      m_html = html_body [ascii ''Sara'', ascii ''Ali'', ascii ''sara@example.com'',
                           ascii ''0500000000'', ascii ''landing'', ascii ''Hello'']\<rparr>"
    by (simp add: compose_def substitutions_def sara_payload_def js_or_def process_env_def
        smtp_user_env_def) (simp add: ascii_def)
  have s: "SendMail (NetworkTransport ())
     \<lparr>m_from = JStr (ascii ''owner@example.com''), m_to = JStr (ascii ''owner@example.com''),
      m_replyTo = JStr (ascii ''sara@example.com''), m_subject = SUBJECT,
      m_text = text_body [ascii ''Sara'', ascii ''Ali'', ascii ''sara@example.com'',
                           ascii ''0500000000'', ascii ''landing'', ascii ''Hello''],
      m_html = html_body [ascii ''Sara'', ascii ''Ali'', ascii ''sara@example.com'',
                           ascii ''0500000000'', ascii ''landing'', ascii ''Hello'']\<rparr>
     \<in> set (snd (contact example_platform smtp_up smtp_user_env sara_body))"
    using sara_valid
    by (simp add: contact_validated [OF sara_body_plain] d dispatch_def g c)
       (simp add: sendMail_def smtp_up_def)
  have v: "\<not> env_set smtp_user_env ''MAIL_FROM'' \<and> \<not> env_set smtp_user_env ''MAIL_TO'' \<and>
      env_set smtp_user_env ''SMTP_USER'' \<and>
      process_env smtp_user_env ''SMTP_USER'' = JStr (ascii ''owner@example.com'') \<and>
      property sara_body (ascii ''email'') = JStr (ascii ''sara@example.com'')"
    by (simp add: env_set_def smtp_user_env_def process_env_def sara_body_def ascii_def)
  show ?thesis
    using mail_addresses [OF s] s v by simp
qed

end
